theory Spec2Isabelle
  imports Complex_Main
begin

section \<open>Numbers and shared helpers\<close>

text \<open>
  The TypeScript sources compute with the JavaScript type \<open>number\<close>. Ticks, decimals,
  the raw (minor-unit) token amounts of an allocation and millisecond timestamps are
  integers there and are modelled as \<open>int\<close> or \<open>nat\<close>; prices, balances, percentages
  and the amounts read for a position are modelled as \<open>real\<close>, i.e. the arithmetic is
  exact and IEEE rounding, \<open>NaN\<close> and infinities are left out. \<open>Math.floor\<close> and
  \<open>Math.ceil\<close> are \<open>floor\<close> and \<open>ceiling\<close>.
\<close>

text \<open>\<open>10 ** n\<close> for a possibly negative integer exponent.\<close>

definition pow10 :: "int \<Rightarrow> real" where
  "pow10 n = power_int 10 n"

text \<open>
  \<open>rangePercent?: number | null\<close>: the three JavaScript values a looked-up range
  percentage can take.
\<close>

datatype range_percent = Undefined | Null | Num real

section \<open>Ratio calculator: \<open>calculateOptimalRatioData\<close>\<close>

text \<open>
  \<open>feeConfig[feeRate] || feeConfig[3000]\<close>: the tick spacing of a fee rate, with the
  0.3 percent tier as the default.
\<close>

definition tickSpacingOf :: "int \<Rightarrow> int" where
  "tickSpacingOf feeRate =
     (if feeRate = 100 then 1
      else if feeRate = 500 then 5
      else if feeRate = 3000 then 60
      else if feeRate = 10000 then 200
      else 60)"

text \<open>
  \<open>marketPrice = (Number(sqrtPrice) / 2 ** 64) ** 2 * 10 ** (token1Decimals - token2Decimals)\<close>.
  The position classifier computes its \<open>price\<close> by the same three lines.
\<close>

definition marketPriceOf :: "real \<Rightarrow> nat \<Rightarrow> nat \<Rightarrow> real" where
  "marketPriceOf sqrtPrice token1Decimals token2Decimals =
     (let sqrtPriceDecimal = sqrtPrice / 2 ^ 64;
          decimalsRatio = pow10 (int token1Decimals - int token2Decimals)
      in sqrtPriceDecimal ^ 2 * decimalsRatio)"

text \<open>
  The tick range. The custom branch calls the SDK's \<open>priceToTick\<close>, which is not part of
  the repository: \<open>priceToTick p\<close> stands for
  \<open>Number(priceToTick({ price: p, feeTierIndex, decimalsRatio }) || 0)\<close>.
  The branch taken when \<open>rangePercent\<close> is \<open>null\<close> or \<open>undefined\<close> is the tightest range.
\<close>

definition calcTickRange ::
  "(real \<Rightarrow> real) \<Rightarrow> range_percent \<Rightarrow> real \<Rightarrow> int \<Rightarrow> int \<Rightarrow> int \<times> int" where
  "calcTickRange priceToTick rangePercent marketPrice currentTick tickSpacing =
     (case rangePercent of
        Num r \<Rightarrow>
          (let priceDelta = r / 100;
               lowerPrice = marketPrice * (1 - priceDelta);
               upperPrice = marketPrice * (1 + priceDelta);
               rawTickLower = priceToTick lowerPrice;
               rawTickUpper = priceToTick upperPrice
           in (\<lfloor>rawTickLower / real_of_int tickSpacing\<rfloor> * tickSpacing,
               \<lceil>rawTickUpper / real_of_int tickSpacing\<rceil> * tickSpacing))
      | _ \<Rightarrow>
          (\<lfloor>real_of_int (currentTick - tickSpacing) / real_of_int tickSpacing\<rfloor> * tickSpacing,
           \<lceil>real_of_int (currentTick + tickSpacing) / real_of_int tickSpacing\<rceil> * tickSpacing))"

text \<open>
  Gas reserve: \<open>availableToken1 = Math.max(0, token1Balance - gasReserveAPT)\<close> when token1
  is APT, the balance itself otherwise.
\<close>

definition gasReserveAPT :: real where
  "gasReserveAPT = 1.0"

definition availableToken1Of :: "string \<Rightarrow> real \<Rightarrow> real" where
  "availableToken1Of token1Symbol token1Balance =
     (if token1Symbol = ''APT'' then max 0 (token1Balance - gasReserveAPT) else token1Balance)"

text \<open>
  The liquidity ratio of the tick range, from the oracle's answer \<open>token2NeededRaw\<close> for
  the test amount \<open>largeTestAmount = Math.floor(1000.0 * 10 ** token1Decimals)\<close>.
\<close>

definition liquidityRatioOf :: "nat \<Rightarrow> nat \<Rightarrow> real \<Rightarrow> real" where
  "liquidityRatioOf token1Decimals token2Decimals token2NeededRaw =
     (let largeTestAmount = real_of_int \<lfloor>1000.0 * (10::real) ^ token1Decimals\<rfloor>;
          token1TestAmount = largeTestAmount / 10 ^ token1Decimals;
          token2NeededAmount = token2NeededRaw / 10 ^ token2Decimals
      in token2NeededAmount / token1TestAmount)"

record optimal_amounts =
  totalValueInToken2 :: real
  optimalToken1Amount :: real
  optimalToken2Amount :: real

text \<open>The balanced allocation, as computed after the liquidity ratio is known.\<close>

definition optimalAmounts :: "real \<Rightarrow> real \<Rightarrow> real \<Rightarrow> real \<Rightarrow> optimal_amounts" where
  "optimalAmounts marketPrice liquidityRatio availableToken1 token2Balance =
     (let token1ValueInToken2 = availableToken1 * marketPrice;
          total = token1ValueInToken2 + token2Balance;
          opt1 = total / (marketPrice + liquidityRatio);
          opt2 = opt1 * liquidityRatio
      in \<lparr>totalValueInToken2 = total, optimalToken1Amount = opt1, optimalToken2Amount = opt2\<rparr>)"

section \<open>Position classifier: \<open>filterInactivePositions\<close>\<close>

text \<open>
  \<open>String.prototype.toLowerCase\<close> on ASCII text (pool identifiers are hexadecimal
  strings): the letters \<open>A\<close> to \<open>Z\<close> are mapped to \<open>a\<close> to \<open>z\<close>.
\<close>

definition lowerChar :: "char \<Rightarrow> char" where
  "lowerChar c =
     (let n = (of_char c :: nat) in if 65 \<le> n \<and> n \<le> 90 then char_of (n + 32) else c)"

definition toLowerCase :: "string \<Rightarrow> string" where
  "toLowerCase s = map lowerChar s"

text \<open>
  The fields of \<open>HyperionPosition\<close> that the classifier reads. The token infos are
  optional in the model: \<open>None\<close> is a payload in which \<open>token1Info\<close> or \<open>token2Info\<close>
  is missing at run time, so that reading \<open>.decimals\<close> throws inside the \<open>try\<close> block.
\<close>

record token_info =
  ti_symbol :: string
  ti_decimals :: nat

record pool_data =
  pool_currentTick :: int
  pool_poolId :: string
  pool_sqrtPrice :: real
  pool_token1Info :: "token_info option"
  pool_token2Info :: "token_info option"

record hyperion_position =
  pos_objectId :: string
  pos_tickLower :: int
  pos_tickUpper :: int
  pos_pool :: pool_data

text \<open>\<open>const isActive = tickLower < currentTick && currentTick < tickUpper\<close>.\<close>

definition isActive :: "hyperion_position \<Rightarrow> bool" where
  "isActive pos =
     (pos_tickLower pos < pool_currentTick (pos_pool pos)
      \<and> pool_currentTick (pos_pool pos) < pos_tickUpper pos)"

text \<open>
  \<open>poolConfigs?.find(config => config.poolId.toLowerCase() === pool.poolId.toLowerCase())\<close>
  followed by \<open>poolConfig?.rangePercent\<close>. The optional \<open>poolConfigs\<close> parameter is an
  \<open>option\<close>; a filter configuration is the pair \<open>(poolId, rangePercent)\<close>.
\<close>

definition findRangePercent :: "(string \<times> range_percent) list option \<Rightarrow> string \<Rightarrow> range_percent" where
  "findRangePercent poolConfigs pid =
     (case poolConfigs of
        None \<Rightarrow> Undefined
      | Some cfgs \<Rightarrow>
          (case find (\<lambda>config. toLowerCase (fst config) = toLowerCase pid) cfgs of
             None \<Rightarrow> Undefined
           | Some poolConfig \<Rightarrow> snd poolConfig))"

text \<open>
  The two value shares \<open>(pctToken1, pctToken2)\<close> of a position, valued in token2, from
  the token amounts in display units and the price.
\<close>

definition tokenShares :: "real \<Rightarrow> real \<Rightarrow> real \<Rightarrow> real \<times> real" where
  "tokenShares token1Amount token2Amount price =
     (let valueToken1InToken2 = token1Amount * price;
          valueToken2InToken2 = token2Amount;
          total = valueToken1InToken2 + valueToken2InToken2;
          pctToken1 = (if total > 0 then valueToken1InToken2 / total * 100 else 0);
          pctToken2 = (if total > 0 then valueToken2InToken2 / total * 100 else 0)
      in (pctToken1, pctToken2))"

text \<open>
  The decision \<open>needsRebalancing\<close>: the branch \<open>rangePercent === null\<close> is the tightest
  range rule, every other value of \<open>rangePercent\<close> takes the \<open>else\<close> branch.
\<close>

definition needsRebalancing :: "range_percent \<Rightarrow> bool \<Rightarrow> real \<Rightarrow> real \<Rightarrow> bool" where
  "needsRebalancing rangePercent active pctToken1 pctToken2 =
     (if rangePercent = Null then
        (if \<not> active then True
         else if pctToken1 = 0 \<or> pctToken2 = 0 then True
         else False)
      else
        (if pctToken1 < 10 \<or> pctToken2 < 10 then True else False))"

text \<open>
  The outcome of the \<open>try\<close> block for one position: an exception that reaches the outer
  \<open>catch\<close>, the \<open>continue\<close> of the inner \<open>catch\<close> around the token amount fetch, or the
  value of \<open>needsRebalancing\<close>.
\<close>

datatype analysis = Throws | Continue | Needs bool

text \<open>
  \<open>fetch\<close> is \<open>sdk.Position.fetchTokensAmountByPositionId\<close>: \<open>None\<close> when the call
  throws, the two raw amounts otherwise.
\<close>

definition analyzePosition ::
  "(string \<Rightarrow> (real \<times> real) option) \<Rightarrow> (string \<times> range_percent) list option
     \<Rightarrow> hyperion_position \<Rightarrow> analysis" where
  "analyzePosition fetch poolConfigs pos =
     (let pool = pos_pool pos;
          rangePercent = findRangePercent poolConfigs (pool_poolId pool)
      in case pool_token1Info pool of
           None \<Rightarrow> Throws
         | Some token1Info \<Rightarrow>
       (case pool_token2Info pool of
           None \<Rightarrow> Throws
         | Some token2Info \<Rightarrow>
       (let price = marketPriceOf (pool_sqrtPrice pool) (ti_decimals token1Info) (ti_decimals token2Info)
        in case fetch (pos_objectId pos) of
             None \<Rightarrow> Continue
           | Some (t1, t2) \<Rightarrow>
               (let token1Amount = t1 / 10 ^ ti_decimals token1Info;
                    token2Amount = t2 / 10 ^ ti_decimals token2Info;
                    (pctToken1, pctToken2) = tokenShares token1Amount token2Amount price
                in Needs (needsRebalancing rangePercent (isActive pos) pctToken1 pctToken2)))))"

text \<open>
  The loop over the positions. A position is pushed when the analysis says so; when the
  \<open>try\<close> block threw, the outer \<open>catch\<close> pushes it if it is inactive; after the inner
  \<open>continue\<close> nothing is pushed.
\<close>

definition flagged ::
  "(string \<Rightarrow> (real \<times> real) option) \<Rightarrow> (string \<times> range_percent) list option
     \<Rightarrow> hyperion_position \<Rightarrow> bool" where
  "flagged fetch poolConfigs pos =
     (case analyzePosition fetch poolConfigs pos of
        Needs b \<Rightarrow> b
      | Continue \<Rightarrow> False
      | Throws \<Rightarrow> \<not> isActive pos)"

fun filterInactivePositions ::
  "(string \<Rightarrow> (real \<times> real) option) \<Rightarrow> (string \<times> range_percent) list option
     \<Rightarrow> hyperion_position list \<Rightarrow> hyperion_position list" where
  "filterInactivePositions fetch poolConfigs [] = []"
| "filterInactivePositions fetch poolConfigs (pos # rest) =
     (if flagged fetch poolConfigs pos
      then pos # filterInactivePositions fetch poolConfigs rest
      else filterInactivePositions fetch poolConfigs rest)"

text \<open>\<open>getPoolConfigsForFilter\<close>: \<open>rangePercent: p.rangePercent ?? null\<close>.\<close>

record pool_config =
  cfg_poolId :: string
  cfg_name :: string
  cfg_enabled :: bool
  cfg_rangePercent :: range_percent

definition getPoolConfigsForFilter :: "pool_config list \<Rightarrow> (string \<times> range_percent) list" where
  "getPoolConfigsForFilter pools =
     map (\<lambda>p. (cfg_poolId p, (case cfg_rangePercent p of Undefined \<Rightarrow> Null | r \<Rightarrow> r))) pools"

section \<open>Ratio data\<close>

text \<open>
  The fields of \<open>RatioResponseData\<close> read by the allocation search and by the
  orchestrator. The optional swap fields are \<open>option\<close>s (\<open>None\<close> is \<open>undefined\<close>).
\<close>

record ratio_data =
  rd_token1Symbol :: string
  rd_token2Symbol :: string
  rd_currentTick :: int
  rd_feeTierIndex :: int
  rd_tickLower :: int
  rd_tickUpper :: int
  rd_token1Balance :: real
  rd_token2Balance :: real
  rd_availableToken1 :: real
  rd_token1Decimals :: nat
  rd_token2Decimals :: nat
  rd_swapAmount :: "real option"
  rd_swapAmountRaw :: "int option"
  rd_swapFromToken :: "string option"
  rd_swapToToken :: "string option"
  rd_swapFromSymbol :: "string option"
  rd_swapToSymbol :: "string option"

section \<open>Allocation search: \<open>getCreatePoolPayload\<close>\<close>

text \<open>
  The liquidity oracle \<open>sdk.Pool.estCurrencyBAmountFromA\<close> for the fixed pool, fee tier
  and tick range of the ratio data is the parameter \<open>est\<close>: it maps the raw token1
  amount to the required raw token2 amount, \<open>None\<close> when the call throws.
\<close>

record search_state =
  bestToken1Amount :: real
  bestToken2Amount :: real
  bestToken1AmountRaw :: int
  bestToken2AmountRaw :: int
  found :: bool
  minPercentage :: real
  maxPercentage :: real
  iteration :: nat

definition maxIterations :: nat where
  "maxIterations = 20"

definition tolerance :: real where
  "tolerance = 0.1"

definition initialSearch :: search_state where
  "initialSearch =
     \<lparr>bestToken1Amount = 0, bestToken2Amount = 0, bestToken1AmountRaw = 0,
      bestToken2AmountRaw = 0, found = False, minPercentage = 50.0, maxPercentage = 99.9,
      iteration = 0\<rparr>"

text \<open>
  One candidate evaluation, the same lines in the loop and in the fallback: the amounts
  \<open>(adjustedToken1Amount, roundedRequiredToken2, roundedToken1AmountRaw,
  roundedToken2AmountRaw)\<close> when the candidate is feasible, \<open>None\<close> when it is not or when
  the oracle throws.
\<close>

definition candidate ::
  "(int \<Rightarrow> int option) \<Rightarrow> ratio_data \<Rightarrow> real \<Rightarrow> (real \<times> real \<times> int \<times> int) option" where
  "candidate est rd percentage =
     (let adjustedToken1Amount = rd_availableToken1 rd * (percentage / 100);
          token1AmountRaw = \<lfloor>adjustedToken1Amount * 10 ^ rd_token1Decimals rd\<rfloor>;
          roundedToken1AmountRaw = \<lfloor>real_of_int token1AmountRaw / 1000\<rfloor> * 1000
      in case est roundedToken1AmountRaw of
           None \<Rightarrow> None
         | Some requiredToken2Raw \<Rightarrow>
             (let roundedToken2AmountRaw = \<lfloor>real_of_int requiredToken2Raw / 1000\<rfloor> * 1000;
                  roundedRequiredToken2 = real_of_int roundedToken2AmountRaw / 10 ^ rd_token2Decimals rd
              in if roundedRequiredToken2 \<le> rd_token2Balance rd
                 then Some (adjustedToken1Amount, roundedRequiredToken2,
                            roundedToken1AmountRaw, roundedToken2AmountRaw)
                 else None))"

text \<open>
  The \<open>while\<close> loop. A feasible candidate becomes the best allocation and raises the
  lower bound; an infeasible one, or an oracle error, lowers the upper bound.
\<close>

function searchLoop :: "(int \<Rightarrow> int option) \<Rightarrow> ratio_data \<Rightarrow> search_state \<Rightarrow> search_state" where
  "searchLoop est rd s =
     (if iteration s < maxIterations \<and> maxPercentage s - minPercentage s > tolerance then
        (let currentPercentage = (minPercentage s + maxPercentage s) / 2 in
         case candidate est rd currentPercentage of
           Some (a1, a2, r1, r2) \<Rightarrow>
             searchLoop est rd
               (s\<lparr>iteration := iteration s + 1, bestToken1Amount := a1, bestToken2Amount := a2,
                  bestToken1AmountRaw := r1, bestToken2AmountRaw := r2, found := True,
                  minPercentage := currentPercentage\<rparr>)
         | None \<Rightarrow>
             searchLoop est rd
               (s\<lparr>iteration := iteration s + 1, maxPercentage := currentPercentage\<rparr>))
      else s)"
  by pat_completeness auto
termination
  by (relation "measure (\<lambda>(est, rd, s). maxIterations - iteration s)") auto

declare searchLoop.simps [simp del]

text \<open>The conservative fallback at 80 percent, tried when the loop found nothing.\<close>

definition allocationSearch :: "(int \<Rightarrow> int option) \<Rightarrow> ratio_data \<Rightarrow> search_state" where
  "allocationSearch est rd =
     (let s = searchLoop est rd initialSearch in
      if \<not> found s then
        (case candidate est rd 80.0 of
           Some (a1, a2, r1, r2) \<Rightarrow>
             s\<lparr>bestToken1Amount := a1, bestToken2Amount := a2, bestToken1AmountRaw := r1,
               bestToken2AmountRaw := r2, found := True\<rparr>
         | None \<Rightarrow> s)
      else s)"

datatype create_error =
    InsufficientToken1
  | InsufficientToken2
  | MissingApiKey
  | NoToken1Available
  | NoFeasibleAllocation nat
  | InsufficientToken1Raw int int
  | InsufficientToken2Raw int int
  | PayloadGenerationFailed

record create_params =
  currencyAAmount :: int
  currencyBAmount :: int

text \<open>
  \<open>getCreatePoolPayload\<close>. \<open>hasApiKey\<close> says whether \<open>env?.APTOS_API_KEY\<close> is set;
  \<open>sdkPayload\<close> says whether \<open>sdk.Pool.createPoolTransactionPayload\<close> returns a payload
  for the parameters (it throws otherwise). The result is the parameter set the payload
  is generated from; every \<open>throw\<close> is an \<open>Inl\<close>.
\<close>

definition getCreatePoolPayload ::
  "bool \<Rightarrow> (int \<Rightarrow> int option) \<Rightarrow> (create_params \<Rightarrow> bool) \<Rightarrow> ratio_data
     \<Rightarrow> create_error + create_params" where
  "getCreatePoolPayload hasApiKey est sdkPayload rd =
     (let minimumForPosition = 0.001 in
      if rd_availableToken1 rd < minimumForPosition then Inl InsufficientToken1
      else if rd_token2Balance rd < minimumForPosition then Inl InsufficientToken2
      else if \<not> hasApiKey then Inl MissingApiKey
      else if rd_availableToken1 rd \<le> 0 then Inl NoToken1Available
      else
        (let s = allocationSearch est rd in
         if \<not> found s then Inl (NoFeasibleAllocation (iteration s))
         else
           (let requiredToken1Raw = bestToken1AmountRaw s;
                requiredToken2Raw = bestToken2AmountRaw s;
                availableToken1Raw = \<lfloor>rd_availableToken1 rd * 10 ^ rd_token1Decimals rd\<rfloor>;
                availableToken2Raw = \<lfloor>rd_token2Balance rd * 10 ^ rd_token2Decimals rd\<rfloor>
            in if requiredToken1Raw > availableToken1Raw
               then Inl (InsufficientToken1Raw requiredToken1Raw availableToken1Raw)
               else if requiredToken2Raw > availableToken2Raw
               then Inl (InsufficientToken2Raw requiredToken2Raw availableToken2Raw)
               else
                 (let params = \<lparr>currencyAAmount = bestToken1AmountRaw s,
                                    currencyBAmount = bestToken2AmountRaw s\<rparr>
                  in if sdkPayload params then Inr params else Inl PayloadGenerationFailed))))"

section \<open>Allocation for a top-up: \<open>executeAddLiquidity\<close>, step 4\<close>

text \<open>
  The part of \<open>executeAddLiquidity\<close> from the balance validation of step 4 to the final
  amount validation, on the refreshed ratio data. This search does not round the raw
  amounts and compares the unrounded requirement. Here \<open>est\<close> is the liquidity oracle for
  one fee tier and tick range.
\<close>

definition addCandidate ::
  "(int \<Rightarrow> int option) \<Rightarrow> ratio_data \<Rightarrow> real \<Rightarrow> real \<Rightarrow> (real \<times> real \<times> int \<times> int) option" where
  "addCandidate est rd maxUsableToken1 percentage =
     (let adjustedToken1Amount = maxUsableToken1 * (percentage / 100);
          token1AmountRaw = \<lfloor>adjustedToken1Amount * 10 ^ rd_token1Decimals rd\<rfloor>
      in case est token1AmountRaw of
           None \<Rightarrow> None
         | Some requiredToken2Raw \<Rightarrow>
             (let requiredToken2 = real_of_int requiredToken2Raw / 10 ^ rd_token2Decimals rd
              in if requiredToken2 \<le> rd_token2Balance rd
                 then Some (adjustedToken1Amount, requiredToken2, token1AmountRaw, requiredToken2Raw)
                 else None))"

definition addMaxIterations :: nat where
  "addMaxIterations = 10"

definition addTolerance :: real where
  "addTolerance = 1.0"

function addSearchLoop ::
  "(int \<Rightarrow> int option) \<Rightarrow> ratio_data \<Rightarrow> real \<Rightarrow> search_state \<Rightarrow> search_state" where
  "addSearchLoop est rd maxUsableToken1 s =
     (if iteration s < addMaxIterations \<and> maxPercentage s - minPercentage s > addTolerance then
        (let currentPercentage = (minPercentage s + maxPercentage s) / 2 in
         case addCandidate est rd maxUsableToken1 currentPercentage of
           Some (a1, a2, r1, r2) \<Rightarrow>
             addSearchLoop est rd maxUsableToken1
               (s\<lparr>iteration := iteration s + 1, bestToken1Amount := a1, bestToken2Amount := a2,
                  bestToken1AmountRaw := r1, bestToken2AmountRaw := r2, found := True,
                  minPercentage := currentPercentage\<rparr>)
         | None \<Rightarrow>
             addSearchLoop est rd maxUsableToken1
               (s\<lparr>iteration := iteration s + 1, maxPercentage := currentPercentage\<rparr>))
      else s)"
  by pat_completeness auto
termination
  by (relation "measure (\<lambda>(est, rd, m, s). addMaxIterations - iteration s)") auto

declare addSearchLoop.simps [simp del]

datatype add_error =
    InsufficientToken1Balance
  | InsufficientCombinedBalance
  | InvalidFallbackTickRange int int
  | NoFeasibleAddAllocation nat
  | Token1AmountTooSmall int
  | Token2AmountTooSmall int

definition finalMinToken1Raw :: int where
  "finalMinToken1Raw = 100000"

definition finalMinToken2Raw :: int where
  "finalMinToken2Raw = 100000"

text \<open>
  The fee tier and tick range of the position, \<open>(feeTier, tickLower, tickUpper)\<close>.
  \<open>positionDetails\<close> is what \<open>sdk.Position.fetchPositionById\<close> gives: \<open>None\<close> when the
  call throws or finds no position or no numeric tick bounds, otherwise the tick bounds
  and the pool's fee tier if it has one. Invalid details fall back to the ratio data, and
  an invalid fallback range is an error.
\<close>

definition positionQuery ::
  "(int \<times> int \<times> int option) option \<Rightarrow> ratio_data \<Rightarrow> add_error + (int \<times> int \<times> int)" where
  "positionQuery positionDetails rd =
     (let fallback =
            (if rd_tickLower rd \<ge> rd_tickUpper rd
             then Inl (InvalidFallbackTickRange (rd_tickLower rd) (rd_tickUpper rd))
             else Inr (rd_feeTierIndex rd, rd_tickLower rd, rd_tickUpper rd))
      in case positionDetails of
           None \<Rightarrow> fallback
         | Some (actualTickLower, actualTickUpper, feeTier) \<Rightarrow>
             (if actualTickLower \<ge> actualTickUpper then fallback
              else Inr ((case feeTier of None \<Rightarrow> rd_feeTierIndex rd | Some f \<Rightarrow> f),
                        actualTickLower, actualTickUpper)))"

text \<open>
  \<open>estFor\<close> is \<open>sdk.Pool.estCurrencyBAmountFromA\<close> as a function of the fee tier and tick
  range first and of the raw token1 amount second.
\<close>

definition addLiquidityAllocation ::
  "(int \<times> int \<times> int \<Rightarrow> int \<Rightarrow> int option) \<Rightarrow> (int \<times> int \<times> int option) option
     \<Rightarrow> ratio_data \<Rightarrow> real \<Rightarrow> add_error + search_state" where
  "addLiquidityAllocation estFor positionDetails rd liquidityPercentage =
     (let minimumForPosition = 0.01 in
      if rd_availableToken1 rd \<le> minimumForPosition then Inl InsufficientToken1Balance
      else if rd_token2Balance rd \<le> 0.005 \<and> rd_availableToken1 rd \<le> minimumForPosition * 2
      then Inl InsufficientCombinedBalance
      else case positionQuery positionDetails rd of
        Inl e \<Rightarrow> Inl e
      | Inr query \<Rightarrow>
        (let est = estFor query;
             maxUsableToken1 = rd_availableToken1 rd * liquidityPercentage;
             s0 = addSearchLoop est rd maxUsableToken1 initialSearch;
             s = (if \<not> found s0 then
                    (case addCandidate est rd maxUsableToken1 70.0 of
                       Some (a1, a2, r1, r2) \<Rightarrow>
                         s0\<lparr>bestToken1Amount := a1, bestToken2Amount := a2,
                            bestToken1AmountRaw := r1, bestToken2AmountRaw := r2, found := True\<rparr>
                     | None \<Rightarrow> s0)
                  else s0)
         in if \<not> found s then Inl (NoFeasibleAddAllocation (iteration s))
            else if bestToken1AmountRaw s < finalMinToken1Raw
            then Inl (Token1AmountTooSmall (bestToken1AmountRaw s))
            else if bestToken2AmountRaw s < finalMinToken2Raw
            then Inl (Token2AmountTooSmall (bestToken2AmountRaw s))
            else Inr s))"

section \<open>Transaction executor: \<open>executeTransaction\<close>\<close>

text \<open>
  A \<open>TransactionPayload\<close>: the entry function and the arguments, the latter as the text
  \<open>JSON.stringify(payload.functionArguments)\<close> that the signature is built from.
\<close>

record payload =
  pl_function :: string
  pl_argsJson :: string

definition TRANSACTION_COOLDOWN :: int where
  "TRANSACTION_COOLDOWN = 30000"

text \<open>
  The module-level map \<open>recentTransactions\<close> from signatures to millisecond timestamps,
  and \<open>cleanupOldTransactions\<close>, which deletes the entries older than the cooldown.
\<close>

type_synonym recent_transactions = "string \<Rightarrow> int option"

definition cleanupOldTransactions :: "recent_transactions \<Rightarrow> int \<Rightarrow> recent_transactions" where
  "cleanupOldTransactions recent now =
     (\<lambda>key. case recent key of
              None \<Rightarrow> None
            | Some timestamp \<Rightarrow>
                (if now - timestamp > TRANSACTION_COOLDOWN then None else Some timestamp))"

definition txSignatureOf :: "string \<Rightarrow> payload \<Rightarrow> string" where
  "txSignatureOf sender pl = sender @ ''_'' @ pl_function pl @ ''_'' @ pl_argsJson pl"

text \<open>
  What the chain client does with the transaction: the build throws, the simulation
  reports a failure or throws, the submission throws, the confirmation wait throws, or
  the transaction is confirmed with a hash. Errors carry their message.
\<close>

datatype chain_response =
    BuildFails string
  | SimulationFails string
  | SubmitFails string
  | ConfirmFails string
  | Confirmed string

record tx_outcome =
  tx_recent :: recent_transactions
  tx_buildTime :: int
  tx_result :: "string + string"

text \<open>
  \<open>executeTransaction\<close>, called at time \<open>now = Date.now()\<close> (the clean-up reads the
  same clock value). \<open>lastSubmission && ...\<close> is false for a missing entry and for the
  timestamp 0. After the wait of \<open>waitTime\<close> milliseconds the transaction is built, so
  \<open>tx_buildTime\<close> is the earliest time of the build. The signature is recorded with the
  time of the call, after a successful simulation and before the submission. The result
  is the error message (\<open>Inl\<close>) or the transaction hash.
\<close>

definition executeTransaction ::
  "recent_transactions \<Rightarrow> int \<Rightarrow> string \<Rightarrow> payload \<Rightarrow> chain_response \<Rightarrow> tx_outcome" where
  "executeTransaction recent now sender pl response =
     (let recent1 = cleanupOldTransactions recent now;
          txSignature = txSignatureOf sender pl;
          lastSubmission = recent1 txSignature;
          waitTime = (case lastSubmission of
                        None \<Rightarrow> 0
                      | Some lastTime \<Rightarrow>
                          (if lastTime \<noteq> 0 \<and> now - lastTime < TRANSACTION_COOLDOWN
                           then TRANSACTION_COOLDOWN - (now - lastTime) else 0));
          buildTime = now + waitTime
      in case response of
           BuildFails e \<Rightarrow>
             \<lparr>tx_recent = recent1, tx_buildTime = buildTime, tx_result = Inl e\<rparr>
         | SimulationFails e \<Rightarrow>
             \<lparr>tx_recent = recent1, tx_buildTime = buildTime,
              tx_result = Inl (''Transaction simulation failed: '' @ e)\<rparr>
         | SubmitFails e \<Rightarrow>
             \<lparr>tx_recent = recent1(txSignature \<mapsto> now), tx_buildTime = buildTime,
              tx_result = Inl e\<rparr>
         | ConfirmFails e \<Rightarrow>
             \<lparr>tx_recent = recent1(txSignature \<mapsto> now), tx_buildTime = buildTime,
              tx_result = Inl e\<rparr>
         | Confirmed h \<Rightarrow>
             \<lparr>tx_recent = recent1(txSignature \<mapsto> now), tx_buildTime = buildTime,
              tx_result = Inr h\<rparr>)"

text \<open>A call reached \<open>signAndSubmitTransaction\<close>: the build and the simulation succeeded.\<close>

fun submitted :: "chain_response \<Rightarrow> bool" where
  "submitted (BuildFails e) = False"
| "submitted (SimulationFails e) = False"
| "submitted (SubmitFails e) = True"
| "submitted (ConfirmFails e) = True"
| "submitted (Confirmed h) = True"

section \<open>Rebalancing orchestrator: \<open>executeRebalancing\<close>\<close>

text \<open>
  \<open>String(error)\<close> of an \<open>Error\<close> object with the given message, and
  \<open>String.prototype.includes\<close> (as \<open>includesStr\<close>).
\<close>

definition errorString :: "string \<Rightarrow> string" where
  "errorString msg = ''Error: '' @ msg"

fun startsWith :: "string \<Rightarrow> string \<Rightarrow> bool" where
  "startsWith s [] = True"
| "startsWith [] (c # cs) = False"
| "startsWith (d # ds) (c # cs) = (d = c \<and> startsWith ds cs)"

fun includesStr :: "string \<Rightarrow> string \<Rightarrow> bool" where
  "includesStr [] sub = (sub = [])"
| "includesStr (d # ds) sub = (startsWith (d # ds) sub \<or> includesStr ds sub)"

record inactive_position =
  ip_objectId :: string
  ip_poolId :: string
  ip_poolName :: string
  ip_value :: string

text \<open>
  \<open>poolConfig.rangePercent ? `+-${rangePercent}%` : 'Tightest Range'\<close>, kept as a value
  instead of the formatted text.
\<close>

datatype range_text = TightestRange | PlusMinus real

definition rangeTextOf :: "range_percent \<Rightarrow> range_text" where
  "rangeTextOf rangePercent =
     (case rangePercent of
        Num r \<Rightarrow> (if r \<noteq> 0 then PlusMinus r else TightestRange)
      | _ \<Rightarrow> TightestRange)"

text \<open>The fields of \<open>AddLiquidityResult\<close> that the orchestrator reads.\<close>

record add_liquidity_result =
  al_success :: bool
  al_transactionHashes :: "string list"
  al_swapExecuted :: bool
  al_swapDetails :: "(string \<times> string \<times> real) option"

text \<open>
  \<open>RebalanceExecutionResult\<close>, with the fields of \<open>details\<close> flattened into the record.
  A swap detail is \<open>(fromSymbol, toSymbol, amount)\<close>, a new position \<open>(poolName, range)\<close>.
\<close>

record rebalance_result =
  rr_success :: bool
  rr_message :: string
  rr_positionRemoved :: bool
  rr_swapExecuted :: bool
  rr_newPositionCreated :: bool
  rr_additionalLiquidityAdded :: bool
  rr_transactionHashes :: "string list"
  rr_swapDetails :: "(string \<times> string \<times> real) list"
  rr_newPositions :: "(string \<times> range_text) list"
  rr_error :: "string option"

text \<open>
  The collaborators of one orchestrator run. A call that can throw answers \<open>Inl\<close> with
  the error's message. \<open>generateRatioResponse\<close> catches its own errors and answers with
  \<open>data: null\<close> (\<open>None\<close>); its three calls that matter are three fields (a fourth call,
  after an insufficient balance error, only logs). \<open>w_newestPosition\<close> is
  \<open>getAllPositions\<close> followed by the filter on the pool and the sort by creation date.
  \<open>executeAddLiquidity\<close> catches its own errors. Progress messages are sent through
  \<open>sendProgressMessage\<close>, which swallows every error and does not touch the result, and
  are left out, as are the waits.
\<close>

record world =
  w_getAccount :: "string + string"
  w_getRemoveLiquidityPayload :: "string \<Rightarrow> string \<Rightarrow> string + payload"
  w_executeTransaction :: "string \<Rightarrow> payload \<Rightarrow> string + string"
  w_ratio :: "ratio_data option"
  w_getSwapPayload :: "string \<Rightarrow> string \<Rightarrow> int \<Rightarrow> string \<Rightarrow> string + payload"
  w_finalRatio :: "ratio_data option"
  w_getCreatePoolPayload :: "ratio_data \<Rightarrow> string + payload"
  w_postCreateRatio :: "ratio_data option"
  w_newestPosition :: "string + string option"
  w_executeAddLiquidity :: "string \<Rightarrow> add_liquidity_result"

definition initialResult :: rebalance_result where
  "initialResult =
     \<lparr>rr_success = False, rr_message = [], rr_positionRemoved = False, rr_swapExecuted = False,
      rr_newPositionCreated = False, rr_additionalLiquidityAdded = False,
      rr_transactionHashes = [], rr_swapDetails = [], rr_newPositions = [], rr_error = None\<rparr>"

text \<open>
  Each step of the \<open>try\<close> block maps the result so far to the updated result and, when
  the step throws, the text \<open>String(error)\<close>; the result record is mutated in place in
  the source, so what was recorded before a throw stays recorded.
\<close>

type_synonym step_outcome = "rebalance_result \<times> string option"

text \<open>Step 1: remove the liquidity of an existing position.\<close>

definition removeStep :: "world \<Rightarrow> inactive_position \<Rightarrow> string \<Rightarrow> rebalance_result \<Rightarrow> step_outcome" where
  "removeStep w inactivePosition address result =
     (if ip_objectId inactivePosition = ''CREATE_NEW'' then (result, None)
      else
        (case w_getRemoveLiquidityPayload w address (ip_objectId inactivePosition) of
           Inl e \<Rightarrow> (result, Some (errorString e))
         | Inr removePayload \<Rightarrow>
             (case w_executeTransaction w ''remove liquidity'' removePayload of
                Inl e \<Rightarrow> (result, Some (errorString e))
              | Inr transactionHash \<Rightarrow>
                  (result\<lparr>rr_positionRemoved := True,
                          rr_transactionHashes := rr_transactionHashes result @ [transactionHash]\<rparr>,
                   None))))"

text \<open>
  \<open>ratioResult.swapAmount && ratioResult.swapAmountRaw && ratioResult.swapFromToken &&
  ratioResult.swapToToken\<close>: a number is truthy when it is not 0, a string when it is not
  empty. The recommendation is \<open>(swapAmount, swapAmountRaw, swapFromToken, swapToToken)\<close>
  when all four are truthy.
\<close>

definition swapRecommendation :: "ratio_data \<Rightarrow> (real \<times> int \<times> string \<times> string) option" where
  "swapRecommendation rd =
     (case rd_swapAmount rd of None \<Rightarrow> None | Some swapAmount \<Rightarrow>
      (case rd_swapAmountRaw rd of None \<Rightarrow> None | Some swapAmountRaw \<Rightarrow>
       (case rd_swapFromToken rd of None \<Rightarrow> None | Some swapFromToken \<Rightarrow>
        (case rd_swapToToken rd of None \<Rightarrow> None | Some swapToToken \<Rightarrow>
           (if swapAmount \<noteq> 0 \<and> swapAmountRaw \<noteq> 0 \<and> swapFromToken \<noteq> [] \<and> swapToToken \<noteq> []
            then Some (swapAmount, swapAmountRaw, swapFromToken, swapToToken)
            else None)))))"

text \<open>
  The swap transaction of step 2: 90 percent of the recommended raw amount is swapped.
  The answer is the hash, or the message of the error thrown by \<open>getSwapPayload\<close> or by
  \<open>executeTransaction\<close>.
\<close>

definition swapTransaction :: "world \<Rightarrow> string \<Rightarrow> string \<Rightarrow> string \<Rightarrow> int \<Rightarrow> string + string" where
  "swapTransaction w address swapFromToken swapToToken recommendedAmountRaw =
     (let swapPercentage = 0.9;
          swapAmountRaw = \<lfloor>real_of_int recommendedAmountRaw * swapPercentage\<rfloor>
      in case w_getSwapPayload w swapFromToken swapToToken swapAmountRaw address of
           Inl e \<Rightarrow> Inl e
         | Inr swapPayload \<Rightarrow> w_executeTransaction w ''swap (90%)'' swapPayload)"

definition swapStep :: "world \<Rightarrow> string \<Rightarrow> rebalance_result \<Rightarrow> step_outcome" where
  "swapStep w address result =
     (case w_ratio w of
        None \<Rightarrow> (result, Some (errorString ''Failed to get ratio data''))
      | Some ratioResult \<Rightarrow>
          (case swapRecommendation ratioResult of
             Some (recommendedAmount, recommendedAmountRaw, swapFromToken, swapToToken) \<Rightarrow>
               (case swapTransaction w address swapFromToken swapToToken recommendedAmountRaw of
                  Inl e \<Rightarrow> (result, Some (errorString e))
                | Inr transactionHash \<Rightarrow>
                    (let swapAmount = recommendedAmount * 0.9 in
                     (result\<lparr>rr_transactionHashes := rr_transactionHashes result @ [transactionHash],
                             rr_swapDetails := rr_swapDetails result @
                               [(case rd_swapFromSymbol ratioResult of None \<Rightarrow> [] | Some x \<Rightarrow> x,
                                 case rd_swapToSymbol ratioResult of None \<Rightarrow> [] | Some x \<Rightarrow> x,
                                 swapAmount)],
                             rr_swapExecuted := True\<rparr>,
                      None)))
           | None \<Rightarrow> (result, None)))"

text \<open>
  Step 3: the safety check for the APT/stkAPT pool and the creation of the new position.
  An error whose message includes \<open>INSUFFICIENT_BALANCE\<close> is wrapped, any other error is
  thrown again as it is. The two balances quoted in the safety check's message are left
  out of the text.
\<close>

definition creationError :: "string \<Rightarrow> string" where
  "creationError errorMessage =
     (if includesStr errorMessage ''INSUFFICIENT_BALANCE''
      then errorString (''Position creation failed due to insufficient balance. '' @ errorMessage
             @ ''. This may be due to slippage from swaps or timing issues with balance updates.'')
      else errorString errorMessage)"

definition createStep ::
  "world \<Rightarrow> inactive_position \<Rightarrow> pool_config \<Rightarrow> rebalance_result \<Rightarrow> step_outcome" where
  "createStep w inactivePosition poolConfig result =
     (case w_finalRatio w of
        None \<Rightarrow> (result, Some (errorString ''Failed to get final ratio data''))
      | Some finalRatioResult \<Rightarrow>
          (let isAPTstkAPTPool =
                 ((rd_token1Symbol finalRatioResult = ''APT'' \<and> rd_token2Symbol finalRatioResult = ''stkAPT'')
                  \<or> (rd_token1Symbol finalRatioResult = ''stkAPT'' \<and> rd_token2Symbol finalRatioResult = ''APT''));
               minimumBalanceForPosition = 0.01;
               hasToken1 = (rd_availableToken1 finalRatioResult \<ge> minimumBalanceForPosition);
               hasToken2 = (rd_token2Balance finalRatioResult \<ge> minimumBalanceForPosition)
           in if isAPTstkAPTPool \<and> (\<not> hasToken1 \<and> \<not> hasToken2) then
                (result, Some (errorString
                   ''Cannot create position: Both token balances are extremely low. This suggests a balance fetching issue.''))
              else
                (case w_getCreatePoolPayload w finalRatioResult of
                   Inl e \<Rightarrow> (result, Some (creationError e))
                 | Inr createPoolPayload \<Rightarrow>
                     (case w_executeTransaction w ''create position'' createPoolPayload of
                        Inl e \<Rightarrow> (result, Some (creationError e))
                      | Inr transactionHash \<Rightarrow>
                          (result\<lparr>rr_newPositionCreated := True,
                                  rr_transactionHashes := rr_transactionHashes result @ [transactionHash],
                                  rr_newPositions := rr_newPositions result @
                                    [(ip_poolName inactivePosition,
                                      rangeTextOf (cfg_rangePercent poolConfig))]\<rparr>,
                           None)))))"

text \<open>
  Step 4: the optional top-up, inside its own \<open>try\<close>: nothing it does can make the run
  fail.
\<close>

definition topUpStep :: "world \<Rightarrow> rebalance_result \<Rightarrow> rebalance_result" where
  "topUpStep w result =
     (case w_postCreateRatio w of
        None \<Rightarrow> result
      | Some postCreateRatioData \<Rightarrow>
          (let remainingToken1 = rd_availableToken1 postCreateRatioData;
               remainingToken2 = rd_token2Balance postCreateRatioData;
               meaningfulThreshold = 0.01
           in if remainingToken1 > meaningfulThreshold \<or> remainingToken2 > meaningfulThreshold then
                (case w_newestPosition w of
                   Inl e \<Rightarrow> result
                 | Inr None \<Rightarrow> result
                 | Inr (Some positionId) \<Rightarrow>
                     (let additionalLiquidityResult = w_executeAddLiquidity w positionId in
                      if al_success additionalLiquidityResult then
                        result\<lparr>rr_additionalLiquidityAdded := True,
                               rr_transactionHashes := rr_transactionHashes result
                                 @ al_transactionHashes additionalLiquidityResult,
                               rr_swapDetails := rr_swapDetails result @
                                 (if al_swapExecuted additionalLiquidityResult
                                  then (case al_swapDetails additionalLiquidityResult of
                                          None \<Rightarrow> [] | Some d \<Rightarrow> [d])
                                  else [])\<rparr>
                      else result))
              else result))"

text \<open>The \<open>try\<close> block: the steps in sequence, stopping at the first throw.\<close>

definition tryBlock :: "world \<Rightarrow> inactive_position \<Rightarrow> pool_config \<Rightarrow> step_outcome" where
  "tryBlock w inactivePosition poolConfig =
     (case w_getAccount w of
        Inl e \<Rightarrow> (initialResult, Some (errorString e))
      | Inr address \<Rightarrow>
          (case removeStep w inactivePosition address initialResult of
             (result1, Some err) \<Rightarrow> (result1, Some err)
           | (result1, None) \<Rightarrow>
               (case swapStep w address result1 of
                  (result2, Some err) \<Rightarrow> (result2, Some err)
                | (result2, None) \<Rightarrow>
                    (case createStep w inactivePosition poolConfig result2 of
                       (result3, Some err) \<Rightarrow> (result3, Some err)
                     | (result3, None) \<Rightarrow>
                         (let result4 = topUpStep w result3 in
                          (result4\<lparr>rr_success := True,
                                   rr_message := ip_poolName inactivePosition
                                     @ (if ip_objectId inactivePosition = ''CREATE_NEW''
                                        then '' position created'' else '' rebalanced'')
                                     @ '' successfully''
                                     @ (if rr_additionalLiquidityAdded result4
                                        then '' with additional liquidity optimization'' else [])\<rparr>,
                           None))))))"

text \<open>
  \<open>executeRebalancing\<close>: the \<open>catch\<close> turns a throw of the \<open>try\<close> block into a returned
  result that keeps everything recorded so far.
\<close>

definition executeRebalancing :: "world \<Rightarrow> inactive_position \<Rightarrow> pool_config \<Rightarrow> rebalance_result" where
  "executeRebalancing w inactivePosition poolConfig =
     (case tryBlock w inactivePosition poolConfig of
        (result, None) \<Rightarrow> result
      | (result, Some err) \<Rightarrow>
          result\<lparr>rr_success := False,
                 rr_error := Some err,
                 rr_message := ip_poolName inactivePosition
                   @ (if ip_objectId inactivePosition = ''CREATE_NEW''
                      then '' position creation'' else '' rebalancing'')
                   @ '' failed: '' @ err\<rparr>)"

section \<open>Batch controller: \<open>executeRebalancingFlow\<close>, automatic mode\<close>

text \<open>
  \<open>DEFAULT_POOLS_TO_MANAGE\<close> of the pool configuration file.
\<close>

definition DEFAULT_POOLS_TO_MANAGE :: "pool_config list" where
  "DEFAULT_POOLS_TO_MANAGE =
     [\<lparr>cfg_poolId = ''0xbab8526a9eb7403a444fcc1f73bf02d8f94dafd3c88a02b5736a1a77fafe4169'',
       cfg_name = ''APT/kAPT'', cfg_enabled = False, cfg_rangePercent = Null\<rparr>,
      \<lparr>cfg_poolId = ''0x925660b8618394809f89f8002e2926600c775221f43bf1919782b297a79400d8'',
       cfg_name = ''APT/USDC'', cfg_enabled = False, cfg_rangePercent = Num 5\<rparr>,
      \<lparr>cfg_poolId = ''0x18269b1090d668fbbc01902fa6a5ac6e75565d61860ddae636ac89741c883cbc'',
       cfg_name = ''APT/USDT'', cfg_enabled = True, cfg_rangePercent = Num 5\<rparr>,
      \<lparr>cfg_poolId = ''0x9878b6f039b1fce27240fd51f536fceefac939268ecaa8dd6c84b7640177abe4'',
       cfg_name = ''APT/stkAPT'', cfg_enabled = False, cfg_rangePercent = Null\<rparr>]"

text \<open>
  The \<open>operationLimit\<close> object that the scheduled handler of the worker declares under
  the comment \<open>CIRCUIT BREAKER: Limit operations to prevent "too many subrequests"\<close>
  before it calls \<open>executeRebalancingFlow(env, { sendNotifications: true })\<close>. The object
  is not passed to the flow and is not read anywhere.
\<close>

definition maxRebalancingOperations :: nat where
  "maxRebalancingOperations = 2"

definition maxPositionCreations :: nat where
  "maxPositionCreations = 1"

text \<open>\<open>RebalancingResult\<close>, with the fields of \<open>details\<close> flattened into the record.\<close>

record flow_result =
  fr_success :: bool
  fr_message :: string
  fr_processedPositions :: nat
  fr_successfulRebalances :: nat
  fr_failedRebalances :: nat
  fr_additionalLiquidityOperations :: nat
  fr_transactionHashes :: "string list"
  fr_swapDetails :: "(string \<times> string \<times> real) list"
  fr_newPositions :: "(string \<times> range_text) list"
  fr_errors :: "string list"

record check_result =
  chk_success :: bool
  chk_message :: string
  chk_inactivePositions :: "inactive_position list"

text \<open>
  The collaborators of one cycle: \<open>getAccount\<close>, the answer of
  \<open>checkRebalancingNeeded\<close> (which catches its own errors), the pool identifiers of the
  positions returned by \<open>getAllPositions\<close>, and the collaborators of each orchestrator
  run and of each position creation. Notifications, among them the balance health check
  for APT/stkAPT, do not touch the result and are left out.
\<close>

record flow_world =
  fw_getAccount :: "string + string"
  fw_checkRebalancingNeeded :: check_result
  fw_getAllPositions :: "string + string list"
  fw_positionWorld :: "inactive_position \<Rightarrow> world"
  fw_poolWorld :: "pool_config \<Rightarrow> world"

definition initialFlowResult :: flow_result where
  "initialFlowResult =
     \<lparr>fr_success = False, fr_message = [], fr_processedPositions = 0,
      fr_successfulRebalances = 0, fr_failedRebalances = 0,
      fr_additionalLiquidityOperations = 0, fr_transactionHashes = [], fr_swapDetails = [],
      fr_newPositions = [], fr_errors = []\<rparr>"

text \<open>The \<open>catch\<close> of one position creation: \<open>errors.push(`${name}: ${error.message}`)\<close>.\<close>

definition creationFailed :: "pool_config \<Rightarrow> string \<Rightarrow> flow_result \<Rightarrow> flow_result" where
  "creationFailed missingPool errorMessage result =
     result\<lparr>fr_failedRebalances := fr_failedRebalances result + 1,
            fr_processedPositions := fr_processedPositions result + 1,
            fr_errors := fr_errors result @ [cfg_name missingPool @ '': '' @ errorMessage]\<rparr>"

text \<open>
  The body of the loop over the missing pools: ratio data, balance check, the
  pre-creation swap of 80 percent of the recommended amount, and the creation.
  \<open>Object.assign(ratioData, updatedRatioResponse.data)\<close> replaces the ratio data after a
  swap.
\<close>

definition createMissingPosition :: "world \<Rightarrow> string \<Rightarrow> pool_config \<Rightarrow> flow_result \<Rightarrow> flow_result" where
  "createMissingPosition w address missingPool result =
     (case w_ratio w of
        None \<Rightarrow>
          result\<lparr>fr_failedRebalances := fr_failedRebalances result + 1,
                 fr_errors := fr_errors result @ [cfg_name missingPool @ '': Cannot get ratio data'']\<rparr>
      | Some ratioData \<Rightarrow>
          (let minBalance = 0.1;
               hasToken1 = (rd_availableToken1 ratioData \<ge> minBalance);
               hasToken2 = (rd_token2Balance ratioData \<ge> minBalance)
           in if \<not> hasToken1 \<and> \<not> hasToken2 then
                result\<lparr>fr_errors := fr_errors result
                         @ [cfg_name missingPool @ '': Insufficient balance to create position'']\<rparr>
              else
                (case w_getAccount w of
                   Inl e \<Rightarrow> creationFailed missingPool e result
                 | Inr account \<Rightarrow>
                     (case (case swapRecommendation ratioData of
                              None \<Rightarrow> Inr (result, ratioData)
                            | Some (swapAmount, swapAmountRaw, swapFromToken, swapToToken) \<Rightarrow>
                                (case w_getSwapPayload w swapFromToken swapToToken
                                        \<lfloor>real_of_int swapAmountRaw * 0.8\<rfloor> address of
                                   Inl e \<Rightarrow> Inl (e, result)
                                 | Inr swapPayload \<Rightarrow>
                                     (case w_executeTransaction w ''pre-creation swap'' swapPayload of
                                        Inl e \<Rightarrow> Inl (e, result)
                                      | Inr transactionHash \<Rightarrow>
                                          Inr (result\<lparr>fr_transactionHashes :=
                                                         fr_transactionHashes result @ [transactionHash]\<rparr>,
                                               (case w_finalRatio w of
                                                  None \<Rightarrow> ratioData
                                                | Some updated \<Rightarrow> updated))))) of
                        Inl (e, result1) \<Rightarrow> creationFailed missingPool e result1
                      | Inr (result1, ratioData1) \<Rightarrow>
                          (case w_getCreatePoolPayload w ratioData1 of
                             Inl e \<Rightarrow> creationFailed missingPool e result1
                           | Inr createPoolPayload \<Rightarrow>
                               (case w_executeTransaction w
                                       (''create position in '' @ cfg_name missingPool) createPoolPayload of
                                  Inl e \<Rightarrow> creationFailed missingPool e result1
                                | Inr transactionHash \<Rightarrow>
                                    result1\<lparr>fr_transactionHashes :=
                                               fr_transactionHashes result1 @ [transactionHash],
                                             fr_successfulRebalances := fr_successfulRebalances result1 + 1,
                                             fr_processedPositions := fr_processedPositions result1 + 1,
                                             fr_newPositions := fr_newPositions result1 @
                                               [(cfg_name missingPool,
                                                 rangeTextOf (cfg_rangePercent missingPool))]\<rparr>))))))"

text \<open>
  The enabled pools in which the account has no position, and the rate limit on them:
  \<open>missingPositionPools.slice(0, maxPoolsPerExecution)\<close> with
  \<open>maxPoolsPerExecution = 1\<close>.
\<close>

definition missingPositionPools :: "pool_config list \<Rightarrow> string list \<Rightarrow> pool_config list" where
  "missingPositionPools pools allUserPositions =
     filter (\<lambda>enabledPool.
               \<not> list_ex (\<lambda>posPoolId. toLowerCase posPoolId = toLowerCase (cfg_poolId enabledPool))
                    allUserPositions)
       (filter cfg_enabled pools)"

definition maxPoolsPerExecution :: nat where
  "maxPoolsPerExecution = 1"

text \<open>
  The body of the loop over the inactive positions: every one of them is handed to
  \<open>executeRebalancing\<close>.
\<close>

definition processInactivePosition ::
  "flow_world \<Rightarrow> pool_config list \<Rightarrow> inactive_position \<Rightarrow> flow_result \<Rightarrow> flow_result" where
  "processInactivePosition fw pools inactivePosition result =
     (case find (\<lambda>p. toLowerCase (cfg_poolId p) = toLowerCase (ip_poolId inactivePosition)) pools of
        None \<Rightarrow>
          result\<lparr>fr_failedRebalances := fr_failedRebalances result + 1,
                 fr_errors := fr_errors result
                   @ [''Pool config not found for '' @ ip_poolName inactivePosition]\<rparr>
      | Some poolConfig \<Rightarrow>
          (let rebalanceResult =
                 executeRebalancing (fw_positionWorld fw inactivePosition) inactivePosition poolConfig
           in if rr_success rebalanceResult then
                result\<lparr>fr_successfulRebalances := fr_successfulRebalances result + 1,
                       fr_transactionHashes := fr_transactionHashes result
                         @ rr_transactionHashes rebalanceResult,
                       fr_swapDetails := fr_swapDetails result @ rr_swapDetails rebalanceResult,
                       fr_newPositions := fr_newPositions result @ rr_newPositions rebalanceResult,
                       fr_additionalLiquidityOperations :=
                         fr_additionalLiquidityOperations result
                           + (if rr_additionalLiquidityAdded rebalanceResult then 1 else 0)\<rparr>
              else
                result\<lparr>fr_failedRebalances := fr_failedRebalances result + 1,
                       fr_errors := fr_errors result
                         @ [ip_poolName inactivePosition @ '': ''
                            @ (case rr_error rebalanceResult of
                                 None \<Rightarrow> ''Unknown error''
                               | Some e \<Rightarrow> (if e = [] then ''Unknown error'' else e))]\<rparr>))"

text \<open>
  The end of the flow: the overall success flag. The message texts are shortened to
  their first sentence.
\<close>

definition finishFlow :: "flow_result \<Rightarrow> flow_result" where
  "finishFlow result =
     (let ok = (fr_processedPositions result > 0 \<and> fr_successfulRebalances result > 0)
      in result\<lparr>fr_success := ok,
                fr_message :=
                  (if ok then ''Rebalancing completed''
                   else if fr_processedPositions result = 0 then ''No Rebalancing Actions Needed''
                   else ''Rebalancing failed'')\<rparr>)"

definition flowFailed :: "string \<Rightarrow> flow_result \<Rightarrow> flow_result" where
  "flowFailed e result =
     result\<lparr>fr_success := False,
            fr_message := ''Rebalancing flow failed: '' @ errorString e,
            fr_errors := fr_errors result @ [errorString e]\<rparr>"

text \<open>The loop over the inactive positions and the end of the flow.\<close>

definition rebalanceInactivePositions ::
  "flow_world \<Rightarrow> pool_config list \<Rightarrow> inactive_position list \<Rightarrow> flow_result \<Rightarrow> flow_result" where
  "rebalanceInactivePositions fw pools inactivePositions result =
     finishFlow
       (fold (processInactivePosition fw pools) inactivePositions
          (result\<lparr>fr_processedPositions := length inactivePositions\<rparr>))"

text \<open>
  \<open>executeRebalancingFlow\<close> without a \<open>poolId\<close>: the automatic mode of the scheduled
  cycle, over the pool list \<open>pools\<close> (\<open>DEFAULT_POOLS_TO_MANAGE\<close> in the source).
\<close>

definition executeRebalancingFlow :: "flow_world \<Rightarrow> pool_config list \<Rightarrow> flow_result" where
  "executeRebalancingFlow fw pools =
     (case fw_getAccount fw of
        Inl e \<Rightarrow> flowFailed e initialFlowResult
      | Inr address \<Rightarrow>
          (let rebalanceCheckResult = fw_checkRebalancingNeeded fw in
           if \<not> chk_success rebalanceCheckResult then
             initialFlowResult\<lparr>fr_success := False,
                                fr_message := chk_message rebalanceCheckResult,
                                fr_errors := [''Rebalancing check failed'']\<rparr>
           else if chk_inactivePositions rebalanceCheckResult = [] then
             (case fw_getAllPositions fw of
                Inl e \<Rightarrow> flowFailed e initialFlowResult
              | Inr allUserPositions \<Rightarrow>
                  (let missing = missingPositionPools pools allUserPositions in
                   if missing \<noteq> [] then
                     rebalanceInactivePositions fw pools (chk_inactivePositions rebalanceCheckResult)
                       (fold (\<lambda>missingPool. createMissingPosition (fw_poolWorld fw missingPool)
                                               address missingPool)
                          (take maxPoolsPerExecution missing) initialFlowResult)
                   else
                     initialFlowResult\<lparr>fr_success := True,
                                        fr_message := ''No rebalancing needed - portfolio is optimal''\<rparr>))
           else
             rebalanceInactivePositions fw pools (chk_inactivePositions rebalanceCheckResult)
               initialFlowResult))"

section \<open>Example inputs\<close>

text \<open>
  A pool with price 100 (\<open>sqrtPrice = 2 ** 64\<close>, decimals 8 and 6) and a position
  with the tick range \<open>[100, 200]\<close> in it, used by the closed instances of the theorems.
\<close>

definition examplePool :: "string \<Rightarrow> int \<Rightarrow> pool_data" where
  "examplePool pid tick =
     \<lparr>pool_currentTick = tick, pool_poolId = pid, pool_sqrtPrice = 2 ^ 64,
      pool_token1Info = Some \<lparr>ti_symbol = ''APT'', ti_decimals = 8\<rparr>,
      pool_token2Info = Some \<lparr>ti_symbol = ''USDT'', ti_decimals = 6\<rparr>\<rparr>"

definition examplePosition :: "string \<Rightarrow> string \<Rightarrow> int \<Rightarrow> hyperion_position" where
  "examplePosition oid pid tick =
     \<lparr>pos_objectId = oid, pos_tickLower = 100, pos_tickUpper = 200,
      pos_pool = examplePool pid tick\<rparr>"

text \<open>
  Ratio data with 10 available token1 (8 decimals) and 1500 token2 (6 decimals), the
  tick range \<open>[420, 600]\<close> around the current tick 500, and no swap recommendation.
\<close>

definition exampleRatioData :: ratio_data where
  "exampleRatioData =
     \<lparr>rd_token1Symbol = ''APT'', rd_token2Symbol = ''USDT'', rd_currentTick = 500,
      rd_feeTierIndex = 2, rd_tickLower = 420, rd_tickUpper = 600, rd_token1Balance = 11,
      rd_token2Balance = 1500, rd_availableToken1 = 10, rd_token1Decimals = 8,
      rd_token2Decimals = 6, rd_swapAmount = None, rd_swapAmountRaw = None,
      rd_swapFromToken = None, rd_swapToToken = None, rd_swapFromSymbol = None,
      rd_swapToSymbol = None\<rparr>"

text \<open>
  The same ratio data with an available token1 amount whose raw value at 74.95 percent,
  749500240, is not a multiple of 1000.
\<close>

definition oddRatioData :: ratio_data where
  "oddRatioData =
     exampleRatioData\<lparr>rd_availableToken1 := 10.00000321, rd_token1Balance := 11.00000321\<rparr>"

text \<open>
  Ratio data that recommends swapping 2 token1 for token2, and the collaborators of an
  orchestrator run in which every call answers, with the given first ratio data and the
  given transaction executor.
\<close>

definition swapRatioData :: ratio_data where
  "swapRatioData =
     exampleRatioData\<lparr>rd_swapAmount := Some 2, rd_swapAmountRaw := Some 200000000,
       rd_swapFromToken := Some ''0xa'', rd_swapToToken := Some ''0xusdt'',
       rd_swapFromSymbol := Some ''APT'', rd_swapToSymbol := Some ''USDT''\<rparr>"

definition exampleWorld :: "ratio_data \<Rightarrow> (string \<Rightarrow> payload \<Rightarrow> string + string) \<Rightarrow> world" where
  "exampleWorld ratio exec =
     \<lparr>w_getAccount = Inr ''0xacc'',
      w_getRemoveLiquidityPayload =
        (\<lambda>address objectId. Inr \<lparr>pl_function = ''remove_liquidity'', pl_argsJson = objectId\<rparr>),
      w_executeTransaction = exec,
      w_ratio = Some ratio,
      w_getSwapPayload =
        (\<lambda>swapFrom swapTo amountRaw recipient. Inr \<lparr>pl_function = ''swap'', pl_argsJson = swapFrom\<rparr>),
      w_finalRatio = Some exampleRatioData,
      w_getCreatePoolPayload = (\<lambda>rd. Inr \<lparr>pl_function = ''create_liquidity'', pl_argsJson = []\<rparr>),
      w_postCreateRatio = None,
      w_newestPosition = Inr None,
      w_executeAddLiquidity =
        (\<lambda>positionId. \<lparr>al_success = False, al_transactionHashes = [], al_swapExecuted = False,
                        al_swapDetails = None\<rparr>)\<rparr>"

text \<open>An executor whose swap fails in simulation, and one that confirms everything.\<close>

definition swapFailingExecutor :: "string \<Rightarrow> payload \<Rightarrow> string + string" where
  "swapFailingExecutor operationName pl =
     (if operationName = ''swap (90%)''
      then Inl ''Transaction simulation failed: Unknown simulation error''
      else Inr (''0x'' @ pl_function pl @ ''_'' @ pl_argsJson pl))"

definition confirmingExecutor :: "string \<Rightarrow> payload \<Rightarrow> string + string" where
  "confirmingExecutor operationName pl = Inr (''0x'' @ pl_function pl @ ''_'' @ pl_argsJson pl)"

definition examplePoolConfig :: pool_config where
  "examplePoolConfig =
     \<lparr>cfg_poolId = ''0xab'', cfg_name = ''APT/USDT'', cfg_enabled = True,
      cfg_rangePercent = Num 5\<rparr>"

definition exampleInactive :: "string \<Rightarrow> inactive_position" where
  "exampleInactive objectId =
     \<lparr>ip_objectId = objectId, ip_poolId = ''0xab'', ip_poolName = ''APT/USDT'',
      ip_value = ''$10.00''\<rparr>"

text \<open>
  A cycle in which \<open>checkRebalancingNeeded\<close> reports three positions of the enabled
  APT/USDT pool, and every collaborator of every run answers without a swap.
\<close>

definition usdtInactive :: "string \<Rightarrow> inactive_position" where
  "usdtInactive objectId =
     \<lparr>ip_objectId = objectId,
      ip_poolId = ''0x18269b1090d668fbbc01902fa6a5ac6e75565d61860ddae636ac89741c883cbc'',
      ip_poolName = ''APT/USDT'', ip_value = ''$10.00''\<rparr>"

definition threePositionCycle :: flow_world where
  "threePositionCycle =
     \<lparr>fw_getAccount = Inr ''0xacc'',
      fw_checkRebalancingNeeded =
        \<lparr>chk_success = True, chk_message = [],
         chk_inactivePositions = [usdtInactive ''0xp1'', usdtInactive ''0xp2'', usdtInactive ''0xp3'']\<rparr>,
      fw_getAllPositions =
        Inr [''0x18269b1090d668fbbc01902fa6a5ac6e75565d61860ddae636ac89741c883cbc'',
             ''0x18269b1090d668fbbc01902fa6a5ac6e75565d61860ddae636ac89741c883cbc'',
             ''0x18269b1090d668fbbc01902fa6a5ac6e75565d61860ddae636ac89741c883cbc''],
      fw_positionWorld = (\<lambda>inactivePosition. exampleWorld exampleRatioData confirmingExecutor),
      fw_poolWorld = (\<lambda>pool. exampleWorld exampleRatioData confirmingExecutor)\<rparr>"

section \<open>Properties of the ratio calculator\<close>

text \<open>
  C4. For every market price, liquidity ratio, available token1 and token2 balance with
  \<open>marketPrice + liquidityRatio\<close> nonzero, the ratio calculator computes
  \<open>totalValueInToken2 = availableToken1 * marketPrice + token2Balance\<close>,
  \<open>optimalToken1 = totalValueInToken2 / (marketPrice + liquidityRatio)\<close> and
  \<open>optimalToken2 = optimalToken1 * liquidityRatio\<close>, so that
  \<open>optimalToken1 * liquidityRatio = optimalToken2\<close> and
  \<open>optimalToken1 * marketPrice + optimalToken2 = totalValueInToken2\<close>, exactly in exact
  arithmetic.
\<close>

theorem optimalAmounts_balanced:
  assumes "marketPrice + liquidityRatio \<noteq> 0"
  shows "(let r = optimalAmounts marketPrice liquidityRatio availableToken1 token2Balance in
         totalValueInToken2 r = availableToken1 * marketPrice + token2Balance
       \<and> optimalToken1Amount r = totalValueInToken2 r / (marketPrice + liquidityRatio)
       \<and> optimalToken2Amount r = optimalToken1Amount r * liquidityRatio
       \<and> optimalToken1Amount r * liquidityRatio = optimalToken2Amount r
       \<and> optimalToken1Amount r * marketPrice + optimalToken2Amount r = totalValueInToken2 r)"
proof -
  let ?total = "availableToken1 * marketPrice + token2Balance"
  let ?d = "marketPrice + liquidityRatio"
  let ?r = "optimalAmounts marketPrice liquidityRatio availableToken1 token2Balance"
  have fields: "totalValueInToken2 ?r = ?total"
    "optimalToken1Amount ?r = ?total / ?d"
    "optimalToken2Amount ?r = ?total / ?d * liquidityRatio"
    by (simp_all add: optimalAmounts_def Let_def)
  have "?total / ?d * marketPrice + ?total / ?d * liquidityRatio = ?total / ?d * ?d"
    by (simp only: distrib_left)
  also have "\<dots> = ?total"
    using assms(1) by simp
  finally have sum: "?total / ?d * marketPrice + ?total / ?d * liquidityRatio = ?total" .
  have c1: "totalValueInToken2 ?r = ?total"
    by (rule fields(1))
  have c2: "optimalToken1Amount ?r = totalValueInToken2 ?r / ?d"
    by (simp only: fields)
  have c3: "optimalToken2Amount ?r = optimalToken1Amount ?r * liquidityRatio"
    by (simp only: fields)
  have c5: "optimalToken1Amount ?r * marketPrice + optimalToken2Amount ?r = totalValueInToken2 ?r"
    by (simp only: fields sum)
  show ?thesis
    unfolding Let_def by (intro conjI) (rule c1 c2 c3 c3 [symmetric] c5)+
qed

theorem optimalAmounts_balanced_witness:
  "(2::real) + 3 \<noteq> 0
   \<and> (let r = optimalAmounts 2 3 10 5 in
         totalValueInToken2 r = 10 * 2 + 5
       \<and> optimalToken1Amount r = totalValueInToken2 r / (2 + 3)
       \<and> optimalToken2Amount r = optimalToken1Amount r * 3
       \<and> optimalToken1Amount r * 3 = optimalToken2Amount r
       \<and> optimalToken1Amount r * 2 + optimalToken2Amount r = totalValueInToken2 r)
   \<and> optimalToken1Amount (optimalAmounts 2 3 10 5) = 5
   \<and> optimalToken2Amount (optimalAmounts 2 3 10 5) = 15"
proof -
  have h: "(2::real) + 3 \<noteq> 0" by simp
  have v: "optimalToken1Amount (optimalAmounts 2 3 10 5) = 5
         \<and> optimalToken2Amount (optimalAmounts 2 3 10 5) = 15"
    by (simp add: optimalAmounts_def Let_def)
  show ?thesis
    by (rule conjI [OF h conjI [OF optimalAmounts_balanced [OF h, of 10 5] v]])
qed

lemma tightest_range_unfold:
  "calcTickRange priceToTick Null marketPrice currentTick tickSpacing =
     (\<lfloor>real_of_int (currentTick - tickSpacing) / real_of_int tickSpacing\<rfloor> * tickSpacing,
      \<lceil>real_of_int (currentTick + tickSpacing) / real_of_int tickSpacing\<rceil> * tickSpacing)"
  by (simp add: calcTickRange_def)

lemma tightest_range_order:
  assumes pos: "0 < tickSpacing"
  shows "\<lfloor>real_of_int (currentTick - tickSpacing) / real_of_int tickSpacing\<rfloor> * tickSpacing
      < \<lceil>real_of_int (currentTick + tickSpacing) / real_of_int tickSpacing\<rceil> * tickSpacing"
proof -
  let ?q = "real_of_int currentTick / real_of_int tickSpacing"
  have nz: "real_of_int tickSpacing \<noteq> 0" using pos by simp
  have lo: "real_of_int (currentTick - tickSpacing) / real_of_int tickSpacing = ?q - 1"
    using nz by (simp add: diff_divide_distrib)
  have hi: "real_of_int (currentTick + tickSpacing) / real_of_int tickSpacing = ?q + 1"
    using nz by (simp add: add_divide_distrib)
  have "\<lfloor>?q - 1\<rfloor> < \<lceil>?q + 1\<rceil>"
    by linarith
  then have "\<lfloor>?q - 1\<rfloor> * tickSpacing < \<lceil>?q + 1\<rceil> * tickSpacing"
    using pos by (rule mult_strict_right_mono)
  then show ?thesis
    by (simp only: lo hi)
qed

lemma tickSpacingOf_positive: "0 < tickSpacingOf feeRate"
  by (simp add: tickSpacingOf_def)

lemma tightest_range_order_for_fee_rate:
  "fst (calcTickRange priceToTick Null marketPrice currentTick (tickSpacingOf feeRate))
     < snd (calcTickRange priceToTick Null marketPrice currentTick (tickSpacingOf feeRate))"
  using tightest_range_order [OF tickSpacingOf_positive]
  by (simp only: tightest_range_unfold fst_conv snd_conv)

lemma gas_reserve_example: "availableToken1Of ''APT'' 5.0 = 4.0"
  by (simp add: availableToken1Of_def gasReserveAPT_def)

text \<open>
  C5. With \<open>rangePercent\<close> null the ratio calculator computes
  \<open>tickLower = floor((currentTick - tickSpacing) / tickSpacing) * tickSpacing\<close> and
  \<open>tickUpper = ceil((currentTick + tickSpacing) / tickSpacing) * tickSpacing\<close>; for
  \<open>currentTick = 500\<close> and \<open>tickSpacing = 60\<close> this is \<open>(420, 600)\<close>; and for every
  current tick and positive tick spacing the bounds satisfy \<open>tickLower < tickUpper\<close> and
  are both multiples of the tick spacing.
\<close>

theorem tightest_range_bounds:
  "calcTickRange priceToTick Null marketPrice currentTick tickSpacing =
     (\<lfloor>real_of_int (currentTick - tickSpacing) / real_of_int tickSpacing\<rfloor> * tickSpacing,
      \<lceil>real_of_int (currentTick + tickSpacing) / real_of_int tickSpacing\<rceil> * tickSpacing)
   \<and> calcTickRange priceToTick Null marketPrice 500 60 = (420, 600)
   \<and> (0 < tickSpacing \<longrightarrow>
        fst (calcTickRange priceToTick Null marketPrice currentTick tickSpacing)
          < snd (calcTickRange priceToTick Null marketPrice currentTick tickSpacing)
        \<and> tickSpacing dvd fst (calcTickRange priceToTick Null marketPrice currentTick tickSpacing)
        \<and> tickSpacing dvd snd (calcTickRange priceToTick Null marketPrice currentTick tickSpacing))"
proof (intro conjI impI)
  show "calcTickRange priceToTick Null marketPrice currentTick tickSpacing =
     (\<lfloor>real_of_int (currentTick - tickSpacing) / real_of_int tickSpacing\<rfloor> * tickSpacing,
      \<lceil>real_of_int (currentTick + tickSpacing) / real_of_int tickSpacing\<rceil> * tickSpacing)"
    by (rule tightest_range_unfold)
  show "calcTickRange priceToTick Null marketPrice 500 60 = (420, 600)"
    by (simp add: calcTickRange_def)
  show "fst (calcTickRange priceToTick Null marketPrice currentTick tickSpacing)
          < snd (calcTickRange priceToTick Null marketPrice currentTick tickSpacing)"
    if "0 < tickSpacing"
    using tightest_range_order [OF that] by (simp only: tightest_range_unfold fst_conv snd_conv)
  show "tickSpacing dvd fst (calcTickRange priceToTick Null marketPrice currentTick tickSpacing)"
    by (simp only: tightest_range_unfold fst_conv dvd_triv_right)
  show "tickSpacing dvd snd (calcTickRange priceToTick Null marketPrice currentTick tickSpacing)"
    by (simp only: tightest_range_unfold snd_conv dvd_triv_right)
qed

theorem tightest_range_bounds_witness:
  "(0::int) < 60
   \<and> fst (calcTickRange (\<lambda>p. 0) Null 1 500 60) = 420
   \<and> snd (calcTickRange (\<lambda>p. 0) Null 1 500 60) = 600
   \<and> fst (calcTickRange (\<lambda>p. 0) Null 1 500 60) < snd (calcTickRange (\<lambda>p. 0) Null 1 500 60)
   \<and> 60 dvd fst (calcTickRange (\<lambda>p. 0) Null 1 500 60)
   \<and> 60 dvd snd (calcTickRange (\<lambda>p. 0) Null 1 500 60)"
proof -
  have pos: "(0::int) < 60" by simp
  have ex: "calcTickRange (\<lambda>p. 0) Null 1 500 60 = (420, 600)"
    by (simp add: calcTickRange_def)
  from tightest_range_bounds [of "\<lambda>p. 0" 1 500 60, THEN conjunct2, THEN conjunct2] pos
  have "fst (calcTickRange (\<lambda>p. 0) Null 1 500 60) < snd (calcTickRange (\<lambda>p. 0) Null 1 500 60)
      \<and> 60 dvd fst (calcTickRange (\<lambda>p. 0) Null 1 500 60)
      \<and> 60 dvd snd (calcTickRange (\<lambda>p. 0) Null 1 500 60)"
    by (rule mp)
  then show ?thesis
    using pos by (simp add: ex)
qed

section \<open>Properties of the position classifier\<close>

lemma filterInactivePositions_filter:
  "filterInactivePositions fetch poolConfigs positions = filter (flagged fetch poolConfigs) positions"
  by (induction positions) simp_all

lemma flagged_evaluated:
  assumes "pool_token1Info (pos_pool pos) = Some token1Info"
      and "pool_token2Info (pos_pool pos) = Some token2Info"
      and "fetch (pos_objectId pos) = Some (t1, t2)"
      and "tokenShares (t1 / 10 ^ ti_decimals token1Info) (t2 / 10 ^ ti_decimals token2Info)
             (marketPriceOf (pool_sqrtPrice (pos_pool pos)) (ti_decimals token1Info)
                (ti_decimals token2Info)) = (pctToken1, pctToken2)"
  shows "flagged fetch poolConfigs pos =
           needsRebalancing (findRangePercent poolConfigs (pool_poolId (pos_pool pos)))
             (isActive pos) pctToken1 pctToken2"
  using assms by (simp add: flagged_def analyzePosition_def Let_def)

lemma findRangePercent_no_entry:
  assumes "\<forall>config \<in> set cfgs. toLowerCase (fst config) \<noteq> toLowerCase pid"
  shows "findRangePercent (Some cfgs) pid = Undefined"
proof -
  have "find (\<lambda>config. toLowerCase (fst config) = toLowerCase pid) cfgs = None"
    using assms by (induction cfgs) auto
  then show ?thesis
    by (simp add: findRangePercent_def)
qed

text \<open>Example data for the closed instances below.\<close>

lemma lower_examples:
  "toLowerCase ''0xAB'' = ''0xab''" "toLowerCase ''0xab'' = ''0xab''"
  "toLowerCase ''0xCD'' = ''0xcd''"
  by code_simp+

text \<open>
  C1. For every position evaluated by the classifier (its token amounts were fetched),
  with activity defined as \<open>tickLower < currentTick < tickUpper\<close> (a current tick equal
  to either bound is inactive): when the configured \<open>rangePercent\<close> is null the position
  is flagged if and only if it is inactive or one token's share of the position value is
  exactly 0; when \<open>rangePercent\<close> is a number the position is flagged if and only if one
  token's share is strictly below 10.
\<close>

theorem classifier_rule:
  assumes "pool_token1Info (pos_pool pos) = Some token1Info"
      and "pool_token2Info (pos_pool pos) = Some token2Info"
      and "fetch (pos_objectId pos) = Some (t1, t2)"
      and "tokenShares (t1 / 10 ^ ti_decimals token1Info) (t2 / 10 ^ ti_decimals token2Info)
             (marketPriceOf (pool_sqrtPrice (pos_pool pos)) (ti_decimals token1Info)
                (ti_decimals token2Info)) = (pctToken1, pctToken2)"
      and "pos \<in> set positions"
  shows "(isActive pos \<longleftrightarrow>
            pos_tickLower pos < pool_currentTick (pos_pool pos)
            \<and> pool_currentTick (pos_pool pos) < pos_tickUpper pos)
       \<and> (pool_currentTick (pos_pool pos) = pos_tickLower pos
            \<or> pool_currentTick (pos_pool pos) = pos_tickUpper pos \<longrightarrow> \<not> isActive pos)
       \<and> (findRangePercent poolConfigs (pool_poolId (pos_pool pos)) = Null \<longrightarrow>
            (pos \<in> set (filterInactivePositions fetch poolConfigs positions)
               \<longleftrightarrow> \<not> isActive pos \<or> pctToken1 = 0 \<or> pctToken2 = 0))
       \<and> (\<forall>r. findRangePercent poolConfigs (pool_poolId (pos_pool pos)) = Num r \<longrightarrow>
            (pos \<in> set (filterInactivePositions fetch poolConfigs positions)
               \<longleftrightarrow> pctToken1 < 10 \<or> pctToken2 < 10))"
proof -
  have mem: "pos \<in> set (filterInactivePositions fetch poolConfigs positions)
      \<longleftrightarrow> needsRebalancing (findRangePercent poolConfigs (pool_poolId (pos_pool pos)))
             (isActive pos) pctToken1 pctToken2"
    using assms(5)
      flagged_evaluated [where fetch = fetch and poolConfigs = poolConfigs, OF assms(1-4)]
    by (simp add: filterInactivePositions_filter)
  have act: "isActive pos \<longleftrightarrow>
            pos_tickLower pos < pool_currentTick (pos_pool pos)
            \<and> pool_currentTick (pos_pool pos) < pos_tickUpper pos"
    by (simp add: isActive_def)
  have bnd: "pool_currentTick (pos_pool pos) = pos_tickLower pos
            \<or> pool_currentTick (pos_pool pos) = pos_tickUpper pos \<longrightarrow> \<not> isActive pos"
    by (auto simp add: isActive_def)
  have tight: "findRangePercent poolConfigs (pool_poolId (pos_pool pos)) = Null \<longrightarrow>
            (pos \<in> set (filterInactivePositions fetch poolConfigs positions)
               \<longleftrightarrow> \<not> isActive pos \<or> pctToken1 = 0 \<or> pctToken2 = 0)"
    by (auto simp add: mem needsRebalancing_def)
  have custom: "\<forall>r. findRangePercent poolConfigs (pool_poolId (pos_pool pos)) = Num r \<longrightarrow>
            (pos \<in> set (filterInactivePositions fetch poolConfigs positions)
               \<longleftrightarrow> pctToken1 < 10 \<or> pctToken2 < 10)"
    by (auto simp add: mem needsRebalancing_def)
  show ?thesis
    by (intro conjI) (rule act bnd tight custom)+
qed

theorem classifier_rule_witness:
  "isActive (examplePosition ''p1'' ''0xAB'' 150)
   \<and> findRangePercent (Some [(''0xab'', Num 5)]) ''0xAB'' = Num 5
   \<and> examplePosition ''p1'' ''0xAB'' 150 \<notin>
         set (filterInactivePositions (\<lambda>_. Some (10 ^ 8, 900 * 10 ^ 6))
                (Some [(''0xab'', Num 5)]) [examplePosition ''p1'' ''0xAB'' 150])
   \<and> findRangePercent (Some [(''0xab'', Null)]) ''0xAB'' = Null
   \<and> examplePosition ''p1'' ''0xAB'' 150 \<in>
         set (filterInactivePositions (\<lambda>_. Some (0, 10 ^ 6))
                (Some [(''0xab'', Null)]) [examplePosition ''p1'' ''0xAB'' 150])"
proof -
  let ?pos = "examplePosition ''p1'' ''0xAB'' 150"
  let ?i1 = "\<lparr>ti_symbol = ''APT'', ti_decimals = 8\<rparr>"
  let ?i2 = "\<lparr>ti_symbol = ''USDT'', ti_decimals = 6\<rparr>"
  have i1: "pool_token1Info (pos_pool ?pos) = Some ?i1"
    and i2: "pool_token2Info (pos_pool ?pos) = Some ?i2"
    by (simp_all add: examplePosition_def examplePool_def)
  have m: "?pos \<in> set [?pos]" by simp
  have act: "isActive ?pos"
    by (simp add: isActive_def examplePosition_def examplePool_def)
  have pid: "pool_poolId (pos_pool ?pos) = ''0xAB''"
    by (simp add: examplePosition_def examplePool_def)
  have sq: "pool_sqrtPrice (pos_pool ?pos) = 2 ^ 64"
    by (simp add: examplePosition_def examplePool_def)
  \<comment> \<open>custom range, shares exactly 10 and 90\<close>
  have rpN: "findRangePercent (Some [(''0xab'', Num 5)]) ''0xAB'' = Num 5"
    by (simp add: findRangePercent_def lower_examples)
  have fN: "(\<lambda>_::string. Some (10 ^ 8 :: real, 900 * 10 ^ 6 :: real)) (pos_objectId ?pos)
              = Some (10 ^ 8, 900 * 10 ^ 6)"
    by simp
  have shN: "tokenShares (10 ^ 8 / 10 ^ ti_decimals ?i1) (900 * 10 ^ 6 / 10 ^ ti_decimals ?i2)
               (marketPriceOf (pool_sqrtPrice (pos_pool ?pos)) (ti_decimals ?i1) (ti_decimals ?i2))
             = (10, 90)"
    by (simp add: sq tokenShares_def marketPriceOf_def pow10_def Let_def)
  note RN = classifier_rule [where poolConfigs = "Some [(''0xab'', Num 5)]", OF i1 i2 fN shN m]
  from RN have "\<forall>r. findRangePercent (Some [(''0xab'', Num 5)]) (pool_poolId (pos_pool ?pos)) = Num r \<longrightarrow>
      (?pos \<in> set (filterInactivePositions (\<lambda>_. Some (10 ^ 8, 900 * 10 ^ 6))
                (Some [(''0xab'', Num 5)]) [?pos]) \<longleftrightarrow> (10::real) < 10 \<or> (90::real) < 10)"
    by (elim conjE)
  then have notin: "?pos \<notin> set (filterInactivePositions (\<lambda>_. Some (10 ^ 8, 900 * 10 ^ 6))
                (Some [(''0xab'', Num 5)]) [?pos])"
    using rpN by (simp add: pid)
  \<comment> \<open>tightest range, token1 share exactly 0 while active\<close>
  have rp0: "findRangePercent (Some [(''0xab'', Null)]) ''0xAB'' = Null"
    by (simp add: findRangePercent_def lower_examples)
  have f0: "(\<lambda>_::string. Some (0 :: real, 10 ^ 6 :: real)) (pos_objectId ?pos) = Some (0, 10 ^ 6)"
    by simp
  have sh0: "tokenShares (0 / 10 ^ ti_decimals ?i1) (10 ^ 6 / 10 ^ ti_decimals ?i2)
               (marketPriceOf (pool_sqrtPrice (pos_pool ?pos)) (ti_decimals ?i1) (ti_decimals ?i2))
             = (0, 100)"
    by (simp add: sq tokenShares_def marketPriceOf_def pow10_def Let_def)
  note R0 = classifier_rule [where poolConfigs = "Some [(''0xab'', Null)]", OF i1 i2 f0 sh0 m]
  from R0 have "findRangePercent (Some [(''0xab'', Null)]) (pool_poolId (pos_pool ?pos)) = Null \<longrightarrow>
      (?pos \<in> set (filterInactivePositions (\<lambda>_. Some (0, 10 ^ 6))
                (Some [(''0xab'', Null)]) [?pos]) \<longleftrightarrow> \<not> isActive ?pos \<or> (0::real) = 0 \<or> (100::real) = 0)"
    by (elim conjE)
  then have isin: "?pos \<in> set (filterInactivePositions (\<lambda>_. Some (0, 10 ^ 6))
                (Some [(''0xab'', Null)]) [?pos])"
    using rp0 by (simp add: pid)
  show ?thesis
    by (intro conjI) (rule act rpN notin rp0 isin)+
qed

text \<open>
  C10. For every position whose pool has no entry in the supplied pool configuration
  list, the looked-up \<open>rangePercent\<close> is undefined (not null), so the test
  \<open>rangePercent === null\<close> fails and the position is evaluated under the custom range
  rule: it is flagged exactly when a token's value share is strictly below 10. An
  unconfigured pool does not default to the tightest range rule.
\<close>

theorem unconfigured_pool_custom_rule:
  assumes "\<forall>config \<in> set cfgs. toLowerCase (fst config) \<noteq> toLowerCase (pool_poolId (pos_pool pos))"
      and "pool_token1Info (pos_pool pos) = Some token1Info"
      and "pool_token2Info (pos_pool pos) = Some token2Info"
      and "fetch (pos_objectId pos) = Some (t1, t2)"
      and "tokenShares (t1 / 10 ^ ti_decimals token1Info) (t2 / 10 ^ ti_decimals token2Info)
             (marketPriceOf (pool_sqrtPrice (pos_pool pos)) (ti_decimals token1Info)
                (ti_decimals token2Info)) = (pctToken1, pctToken2)"
      and "pos \<in> set positions"
  shows "findRangePercent (Some cfgs) (pool_poolId (pos_pool pos)) = Undefined
       \<and> findRangePercent (Some cfgs) (pool_poolId (pos_pool pos)) \<noteq> Null
       \<and> (pos \<in> set (filterInactivePositions fetch (Some cfgs) positions)
            \<longleftrightarrow> pctToken1 < 10 \<or> pctToken2 < 10)"
proof -
  have u: "findRangePercent (Some cfgs) (pool_poolId (pos_pool pos)) = Undefined"
    using assms(1) by (rule findRangePercent_no_entry)
  have "flagged fetch (Some cfgs) pos = needsRebalancing Undefined (isActive pos) pctToken1 pctToken2"
    using flagged_evaluated [where fetch = fetch and poolConfigs = "Some cfgs", OF assms(2-5)]
    by (simp only: u)
  then have "pos \<in> set (filterInactivePositions fetch (Some cfgs) positions)
            \<longleftrightarrow> pctToken1 < 10 \<or> pctToken2 < 10"
    using assms(6) by (simp add: filterInactivePositions_filter needsRebalancing_def)
  then show ?thesis
    by (simp add: u)
qed

theorem unconfigured_pool_custom_rule_witness:
  "findRangePercent (Some [(''0xab'', Null)]) ''0xCD'' = Undefined
   \<and> isActive (examplePosition ''p2'' ''0xCD'' 150)
   \<and> examplePosition ''p2'' ''0xCD'' 150 \<in>
         set (filterInactivePositions (\<lambda>_. Some (10 ^ 8, 1900 * 10 ^ 6))
                (Some [(''0xab'', Null)]) [examplePosition ''p2'' ''0xCD'' 150])"
proof -
  let ?pos = "examplePosition ''p2'' ''0xCD'' 150"
  let ?i1 = "\<lparr>ti_symbol = ''APT'', ti_decimals = 8\<rparr>"
  let ?i2 = "\<lparr>ti_symbol = ''USDT'', ti_decimals = 6\<rparr>"
  have i1: "pool_token1Info (pos_pool ?pos) = Some ?i1"
    and i2: "pool_token2Info (pos_pool ?pos) = Some ?i2"
    by (simp_all add: examplePosition_def examplePool_def)
  have m: "?pos \<in> set [?pos]" by simp
  have act: "isActive ?pos"
    by (simp add: isActive_def examplePosition_def examplePool_def)
  have pid: "pool_poolId (pos_pool ?pos) = ''0xCD''"
    by (simp add: examplePosition_def examplePool_def)
  have sq: "pool_sqrtPrice (pos_pool ?pos) = 2 ^ 64"
    by (simp add: examplePosition_def examplePool_def)
  have none: "\<forall>config \<in> set [(''0xab'', Null)]. toLowerCase (fst config) \<noteq> toLowerCase (pool_poolId (pos_pool ?pos))"
    by (simp add: pid lower_examples)
  have f: "(\<lambda>_::string. Some (10 ^ 8 :: real, 1900 * 10 ^ 6 :: real)) (pos_objectId ?pos)
              = Some (10 ^ 8, 1900 * 10 ^ 6)"
    by simp
  have sh: "tokenShares (10 ^ 8 / 10 ^ ti_decimals ?i1) (1900 * 10 ^ 6 / 10 ^ ti_decimals ?i2)
               (marketPriceOf (pool_sqrtPrice (pos_pool ?pos)) (ti_decimals ?i1) (ti_decimals ?i2))
             = (5, 95)"
    by (simp add: sq tokenShares_def marketPriceOf_def pow10_def Let_def)
  note R = unconfigured_pool_custom_rule [OF none i1 i2 f sh m]
  from R have u: "findRangePercent (Some [(''0xab'', Null)]) ''0xCD'' = Undefined"
    by (simp only: pid)
  from R have "?pos \<in> set (filterInactivePositions (\<lambda>_. Some (10 ^ 8, 1900 * 10 ^ 6))
                (Some [(''0xab'', Null)]) [?pos]) \<longleftrightarrow> (5::real) < 10 \<or> (95::real) < 10"
    by (elim conjE)
  then have isin: "?pos \<in> set (filterInactivePositions (\<lambda>_. Some (10 ^ 8, 1900 * 10 ^ 6))
                (Some [(''0xab'', Null)]) [?pos])"
    by simp
  show ?thesis
    by (intro conjI) (rule u act isin)+
qed

text \<open>
  C7. If reading an individual position's data fails during classification (for example
  the per-position token amount fetch throws), the classifier should fall back to
  flagging that position when it is inactive, without aborting the batch. Evaluated on
  the code: the inactive position \<open>p1\<close> (current tick 250 outside \<open>[100, 200]\<close>) whose
  token amount fetch throws is skipped by the inner handler's \<open>continue\<close> and is not
  flagged; the batch goes on and flags \<open>p2\<close>; only an exception that reaches the outer
  handler (here a missing \<open>token1Info\<close>) takes the fallback and flags the inactive
  position.
\<close>

theorem fetch_failure_skips_inactive_position:
  "\<not> isActive (examplePosition ''p1'' ''0xAB'' 250)
   \<and> analyzePosition (\<lambda>oid. if oid = ''p1'' then None else Some (0, 10 ^ 6))
         (Some [(''0xab'', Null)]) (examplePosition ''p1'' ''0xAB'' 250) = Continue
   \<and> filterInactivePositions (\<lambda>oid. if oid = ''p1'' then None else Some (0, 10 ^ 6))
         (Some [(''0xab'', Null)])
         [examplePosition ''p1'' ''0xAB'' 250, examplePosition ''p2'' ''0xAB'' 150]
       = [examplePosition ''p2'' ''0xAB'' 150]
   \<and> filterInactivePositions (\<lambda>oid. if oid = ''p1'' then None else Some (0, 10 ^ 6))
         (Some [(''0xab'', Null)])
         [(examplePosition ''p3'' ''0xAB'' 250)
            \<lparr>pos_pool := (examplePool ''0xAB'' 250)\<lparr>pool_token1Info := None\<rparr>\<rparr>]
       = [(examplePosition ''p3'' ''0xAB'' 250)
            \<lparr>pos_pool := (examplePool ''0xAB'' 250)\<lparr>pool_token1Info := None\<rparr>\<rparr>]"
  by (simp add: examplePosition_def examplePool_def isActive_def flagged_def analyzePosition_def
      findRangePercent_def lower_examples tokenShares_def marketPriceOf_def pow10_def
      needsRebalancing_def Let_def)

section \<open>Properties of the allocation search\<close>

lemma candidate_feasible:
  assumes "candidate est rd percentage = Some (a1, a2, r1, r2)"
  shows "a2 \<le> rd_token2Balance rd"
    and "a2 = real_of_int r2 / 10 ^ rd_token2Decimals rd"
    and "1000 dvd r1" and "1000 dvd r2"
    and "a1 = rd_availableToken1 rd * (percentage / 100)"
    and "r1 = \<lfloor>real_of_int \<lfloor>a1 * 10 ^ rd_token1Decimals rd\<rfloor> / 1000\<rfloor> * 1000"
  using assms
  by (auto simp add: candidate_def Let_def split: option.splits if_splits)

lemma searchLoop_stop:
  assumes "\<not> (iteration s < maxIterations \<and> maxPercentage s - minPercentage s > tolerance)"
  shows "searchLoop est rd s = s"
  by (subst searchLoop.simps) (simp only: assms if_False)

lemma searchLoop_feasible:
  assumes "iteration s < maxIterations \<and> maxPercentage s - minPercentage s > tolerance"
      and "candidate est rd ((minPercentage s + maxPercentage s) / 2) = Some (a1, a2, r1, r2)"
  shows "searchLoop est rd s =
         searchLoop est rd
           (s\<lparr>iteration := iteration s + 1, bestToken1Amount := a1, bestToken2Amount := a2,
              bestToken1AmountRaw := r1, bestToken2AmountRaw := r2, found := True,
              minPercentage := (minPercentage s + maxPercentage s) / 2\<rparr>)"
  using assms by (subst searchLoop.simps) (simp add: Let_def)

lemma searchLoop_infeasible:
  assumes "iteration s < maxIterations \<and> maxPercentage s - minPercentage s > tolerance"
      and "candidate est rd ((minPercentage s + maxPercentage s) / 2) = None"
  shows "searchLoop est rd s =
         searchLoop est rd
           (s\<lparr>iteration := iteration s + 1,
              maxPercentage := (minPercentage s + maxPercentage s) / 2\<rparr>)"
  using assms by (subst searchLoop.simps) (simp add: Let_def)


lemma searchLoop_bounds:
  assumes "iteration s \<le> maxIterations" "50 \<le> minPercentage s"
    "minPercentage s \<le> maxPercentage s" "maxPercentage s \<le> 99.9"
  shows "iteration (searchLoop est rd s) \<le> maxIterations
       \<and> 50 \<le> minPercentage (searchLoop est rd s)
       \<and> minPercentage (searchLoop est rd s) \<le> maxPercentage (searchLoop est rd s)
       \<and> maxPercentage (searchLoop est rd s) \<le> 99.9
       \<and> (iteration (searchLoop est rd s) = maxIterations
            \<or> maxPercentage (searchLoop est rd s) - minPercentage (searchLoop est rd s) \<le> tolerance)"
  using assms
proof (induction est rd s rule: searchLoop.induct)
  case (1 est rd s)
  show ?case
  proof (cases "iteration s < maxIterations \<and> maxPercentage s - minPercentage s > tolerance")
    case False
    have eq: "searchLoop est rd s = s"
      using False by (rule searchLoop_stop)
    show ?thesis
      unfolding eq using False "1.prems" by auto
  next
    case True
    let ?c = "(minPercentage s + maxPercentage s) / 2"
    show ?thesis
    proof (cases "candidate est rd ?c")
      case None
      let ?s' = "s\<lparr>iteration := iteration s + 1, maxPercentage := ?c\<rparr>"
      have eq: "searchLoop est rd s = searchLoop est rd ?s'"
        using True None by (rule searchLoop_infeasible)
      have "iteration ?s' \<le> maxIterations" "50 \<le> minPercentage ?s'"
        "minPercentage ?s' \<le> maxPercentage ?s'" "maxPercentage ?s' \<le> 99.9"
        using True "1.prems" by simp_all
      from "1.IH"(1) [OF True refl None this] show ?thesis
        by (simp only: eq)
    next
      case (Some q)
      obtain a1 a2 r1 r2 where q: "q = (a1, a2, r1, r2)" by (cases q) auto
      let ?s' = "s\<lparr>iteration := iteration s + 1, bestToken1Amount := a1, bestToken2Amount := a2,
                  bestToken1AmountRaw := r1, bestToken2AmountRaw := r2, found := True,
                  minPercentage := ?c\<rparr>"
      have eq: "searchLoop est rd s = searchLoop est rd ?s'"
        using True Some [unfolded q] by (rule searchLoop_feasible)
      have "iteration ?s' \<le> maxIterations" "50 \<le> minPercentage ?s'"
        "minPercentage ?s' \<le> maxPercentage ?s'" "maxPercentage ?s' \<le> 99.9"
        using True "1.prems" by simp_all
      from "1.IH"(2) [OF True refl Some [unfolded q] refl refl refl this] show ?thesis
        by (simp only: eq)
    qed
  qed
qed

lemma searchLoop_best:
  assumes "found s \<longrightarrow>
             1000 dvd bestToken1AmountRaw s \<and> 1000 dvd bestToken2AmountRaw s
             \<and> bestToken2Amount s = real_of_int (bestToken2AmountRaw s) / 10 ^ rd_token2Decimals rd
             \<and> bestToken2Amount s \<le> rd_token2Balance rd"
  shows "found (searchLoop est rd s) \<longrightarrow>
             1000 dvd bestToken1AmountRaw (searchLoop est rd s)
             \<and> 1000 dvd bestToken2AmountRaw (searchLoop est rd s)
             \<and> bestToken2Amount (searchLoop est rd s)
                 = real_of_int (bestToken2AmountRaw (searchLoop est rd s)) / 10 ^ rd_token2Decimals rd
             \<and> bestToken2Amount (searchLoop est rd s) \<le> rd_token2Balance rd"
  using assms
proof (induction est rd s rule: searchLoop.induct)
  case (1 est rd s)
  show ?case
  proof (cases "iteration s < maxIterations \<and> maxPercentage s - minPercentage s > tolerance")
    case False
    have eq: "searchLoop est rd s = s"
      using False by (rule searchLoop_stop)
    show ?thesis
      unfolding eq using "1.prems" .
  next
    case True
    let ?c = "(minPercentage s + maxPercentage s) / 2"
    show ?thesis
    proof (cases "candidate est rd ?c")
      case None
      let ?s' = "s\<lparr>iteration := iteration s + 1, maxPercentage := ?c\<rparr>"
      have eq: "searchLoop est rd s = searchLoop est rd ?s'"
        using True None by (rule searchLoop_infeasible)
      have "found ?s' \<longrightarrow>
             1000 dvd bestToken1AmountRaw ?s' \<and> 1000 dvd bestToken2AmountRaw ?s'
             \<and> bestToken2Amount ?s' = real_of_int (bestToken2AmountRaw ?s') / 10 ^ rd_token2Decimals rd
             \<and> bestToken2Amount ?s' \<le> rd_token2Balance rd"
        using "1.prems" by auto
      from "1.IH"(1) [OF True refl None this] show ?thesis
        by (simp only: eq)
    next
      case (Some q)
      obtain a1 a2 r1 r2 where q: "q = (a1, a2, r1, r2)" by (cases q) auto
      let ?s' = "s\<lparr>iteration := iteration s + 1, bestToken1Amount := a1, bestToken2Amount := a2,
                  bestToken1AmountRaw := r1, bestToken2AmountRaw := r2, found := True,
                  minPercentage := ?c\<rparr>"
      have eq: "searchLoop est rd s = searchLoop est rd ?s'"
        using True Some [unfolded q] by (rule searchLoop_feasible)
      have "found ?s' \<longrightarrow>
             1000 dvd bestToken1AmountRaw ?s' \<and> 1000 dvd bestToken2AmountRaw ?s'
             \<and> bestToken2Amount ?s' = real_of_int (bestToken2AmountRaw ?s') / 10 ^ rd_token2Decimals rd
             \<and> bestToken2Amount ?s' \<le> rd_token2Balance rd"
        using candidate_feasible [OF Some [unfolded q]] by simp
      from "1.IH"(2) [OF True refl Some [unfolded q] refl refl refl this] show ?thesis
        by (simp only: eq)
    qed
  qed
qed

lemma allocationSearch_best:
  "found (allocationSearch est rd) \<longrightarrow>
     1000 dvd bestToken1AmountRaw (allocationSearch est rd)
     \<and> 1000 dvd bestToken2AmountRaw (allocationSearch est rd)
     \<and> bestToken2Amount (allocationSearch est rd)
         = real_of_int (bestToken2AmountRaw (allocationSearch est rd)) / 10 ^ rd_token2Decimals rd
     \<and> bestToken2Amount (allocationSearch est rd) \<le> rd_token2Balance rd"
proof (cases "found (searchLoop est rd initialSearch)")
  case True
  then have eq: "allocationSearch est rd = searchLoop est rd initialSearch"
    by (simp add: allocationSearch_def Let_def)
  have "found initialSearch \<longrightarrow>
             1000 dvd bestToken1AmountRaw initialSearch \<and> 1000 dvd bestToken2AmountRaw initialSearch
             \<and> bestToken2Amount initialSearch
                 = real_of_int (bestToken2AmountRaw initialSearch) / 10 ^ rd_token2Decimals rd
             \<and> bestToken2Amount initialSearch \<le> rd_token2Balance rd"
    by (simp add: initialSearch_def)
  from searchLoop_best [OF this] show ?thesis
    by (simp only: eq)
next
  case False
  show ?thesis
  proof (cases "candidate est rd 80.0")
    case None
    then have "allocationSearch est rd = searchLoop est rd initialSearch"
      using False by (simp add: allocationSearch_def Let_def)
    then show ?thesis
      using False by simp
  next
    case (Some q)
    obtain a1 a2 r1 r2 where q: "q = (a1, a2, r1, r2)" by (cases q) auto
    have eq: "allocationSearch est rd =
        (searchLoop est rd initialSearch)\<lparr>bestToken1Amount := a1, bestToken2Amount := a2,
           bestToken1AmountRaw := r1, bestToken2AmountRaw := r2, found := True\<rparr>"
      using False Some q by (simp add: allocationSearch_def Let_def)
    show ?thesis
      unfolding eq using candidate_feasible [OF Some [unfolded q]] by simp
  qed
qed

lemma getCreatePoolPayload_Inr:
  assumes "getCreatePoolPayload hasApiKey est sdkPayload rd = Inr p"
  shows "found (allocationSearch est rd)"
    and "currencyAAmount p = bestToken1AmountRaw (allocationSearch est rd)"
    and "currencyBAmount p = bestToken2AmountRaw (allocationSearch est rd)"
    and "currencyAAmount p \<le> \<lfloor>rd_availableToken1 rd * 10 ^ rd_token1Decimals rd\<rfloor>"
    and "currencyBAmount p \<le> \<lfloor>rd_token2Balance rd * 10 ^ rd_token2Decimals rd\<rfloor>"
    and "0.001 \<le> rd_availableToken1 rd"
    and "0.001 \<le> rd_token2Balance rd"
  using assms
  by (auto simp add: getCreatePoolPayload_def Let_def split: if_splits)

lemma addLiquidityAllocation_Inr:
  assumes "addLiquidityAllocation estFor positionDetails rd liquidityPercentage = Inr s"
  shows "finalMinToken1Raw \<le> bestToken1AmountRaw s"
    and "finalMinToken2Raw \<le> bestToken2AmountRaw s"
  using assms
  by (auto simp add: addLiquidityAllocation_def Let_def split: if_splits sum.splits)

lemma create_example_eval:
  "getCreatePoolPayload True (\<lambda>x. Some (2 * x)) (\<lambda>_. True) exampleRatioData
     = Inr \<lparr>currencyAAmount = 749500000, currencyBAmount = 1499000000\<rparr>"
  by code_simp

lemma search_example_eval:
  "iteration (searchLoop (\<lambda>x. Some (2 * x)) exampleRatioData initialSearch) = 9"
  by code_simp

lemma add_example_eval:
  "addLiquidityAllocation (\<lambda>query x. Some (2 * x)) (Some (420, 600, Some 2)) exampleRatioData 0.9
     = Inr \<lparr>bestToken1Amount = 238311 / 32000, bestToken2Amount = 238311 / 160,
            bestToken1AmountRaw = 744721875, bestToken2AmountRaw = 1489443750,
            found = True, minPercentage = 26479 / 320, maxPercentage = 53457 / 640,
            iteration = 6\<rparr>"
  by code_simp

lemma round_down_1000:
  "\<lfloor>real_of_int x / 1000\<rfloor> * 1000 \<le> x" "x < \<lfloor>real_of_int x / 1000\<rfloor> * 1000 + 1000"
proof -
  have "\<lfloor>real_of_int x / 1000\<rfloor> = x div 1000"
    using floor_divide_of_int_eq [of x 1000] by simp
  then show "\<lfloor>real_of_int x / 1000\<rfloor> * 1000 \<le> x" "x < \<lfloor>real_of_int x / 1000\<rfloor> * 1000 + 1000"
    by simp_all
qed

lemma candidate_oracle:
  assumes "candidate est rd percentage = Some (a1, a2, r1, r2)"
  shows "\<exists>q. est r1 = Some q \<and> r2 = \<lfloor>real_of_int q / 1000\<rfloor> * 1000"
  using assms
  by (auto simp add: candidate_def Let_def split: option.splits if_splits)

lemma candidate_floors:
  assumes c: "candidate est rd percentage = Some (a1, a2, r1, r2)"
  shows "a1 = rd_availableToken1 rd * (percentage / 100)
       \<and> r1 = \<lfloor>real_of_int \<lfloor>a1 * 10 ^ rd_token1Decimals rd\<rfloor> / 1000\<rfloor> * 1000
       \<and> r1 \<le> \<lfloor>a1 * 10 ^ rd_token1Decimals rd\<rfloor>
       \<and> \<lfloor>a1 * 10 ^ rd_token1Decimals rd\<rfloor> < r1 + 1000
       \<and> (\<exists>q. est r1 = Some q \<and> r2 = \<lfloor>real_of_int q / 1000\<rfloor> * 1000
                \<and> r2 \<le> q \<and> q < r2 + 1000)
       \<and> a2 = real_of_int r2 / 10 ^ rd_token2Decimals rd
       \<and> a2 \<le> rd_token2Balance rd"
proof -
  note F = candidate_feasible [OF c]
  obtain q where q: "est r1 = Some q" "r2 = \<lfloor>real_of_int q / 1000\<rfloor> * 1000"
    using candidate_oracle [OF c] by blast
  have r1b: "r1 \<le> \<lfloor>a1 * 10 ^ rd_token1Decimals rd\<rfloor>"
    "\<lfloor>a1 * 10 ^ rd_token1Decimals rd\<rfloor> < r1 + 1000"
    using round_down_1000 [of "\<lfloor>a1 * 10 ^ rd_token1Decimals rd\<rfloor>"] F(6)
    by simp_all
  have r2b: "r2 \<le> q" "q < r2 + 1000"
    using round_down_1000 [of q] q(2) by simp_all
  have ex: "\<exists>q. est r1 = Some q \<and> r2 = \<lfloor>real_of_int q / 1000\<rfloor> * 1000 \<and> r2 \<le> q \<and> q < r2 + 1000"
    using q r2b by blast
  show ?thesis
    using F(5) F(6) r1b ex F(2) F(1) by (intro conjI)
qed

lemma searchLoop_best_candidate:
  assumes "found s \<longrightarrow>
             candidate est rd (minPercentage s)
               = Some (bestToken1Amount s, bestToken2Amount s, bestToken1AmountRaw s, bestToken2AmountRaw s)"
  shows "found (searchLoop est rd s) \<longrightarrow>
             candidate est rd (minPercentage (searchLoop est rd s))
               = Some (bestToken1Amount (searchLoop est rd s), bestToken2Amount (searchLoop est rd s),
                       bestToken1AmountRaw (searchLoop est rd s), bestToken2AmountRaw (searchLoop est rd s))"
  using assms
proof (induction est rd s rule: searchLoop.induct)
  case (1 est rd s)
  show ?case
  proof (cases "iteration s < maxIterations \<and> maxPercentage s - minPercentage s > tolerance")
    case False
    have eq: "searchLoop est rd s = s"
      using False by (rule searchLoop_stop)
    show ?thesis
      unfolding eq using "1.prems" .
  next
    case True
    let ?c = "(minPercentage s + maxPercentage s) / 2"
    show ?thesis
    proof (cases "candidate est rd ?c")
      case None
      let ?s' = "s\<lparr>iteration := iteration s + 1, maxPercentage := ?c\<rparr>"
      have eq: "searchLoop est rd s = searchLoop est rd ?s'"
        using True None by (rule searchLoop_infeasible)
      have "found ?s' \<longrightarrow>
             candidate est rd (minPercentage ?s')
               = Some (bestToken1Amount ?s', bestToken2Amount ?s', bestToken1AmountRaw ?s', bestToken2AmountRaw ?s')"
        using "1.prems" by simp
      from "1.IH"(1) [OF True refl None this] show ?thesis
        by (simp only: eq)
    next
      case (Some q)
      obtain a1 a2 r1 r2 where q: "q = (a1, a2, r1, r2)" by (cases q) auto
      let ?s' = "s\<lparr>iteration := iteration s + 1, bestToken1Amount := a1, bestToken2Amount := a2,
                  bestToken1AmountRaw := r1, bestToken2AmountRaw := r2, found := True,
                  minPercentage := ?c\<rparr>"
      have eq: "searchLoop est rd s = searchLoop est rd ?s'"
        using True Some [unfolded q] by (rule searchLoop_feasible)
      have "found ?s' \<longrightarrow>
             candidate est rd (minPercentage ?s')
               = Some (bestToken1Amount ?s', bestToken2Amount ?s', bestToken1AmountRaw ?s', bestToken2AmountRaw ?s')"
        using Some [unfolded q] by simp
      from "1.IH"(2) [OF True refl Some [unfolded q] refl refl refl this] show ?thesis
        by (simp only: eq)
    qed
  qed
qed

text \<open>The percentage of the allocation: the lower bound of the loop, or the fallback.\<close>

lemma allocationSearch_candidate:
  assumes "found (allocationSearch est rd)"
  shows "candidate est rd
           (if found (searchLoop est rd initialSearch)
            then minPercentage (searchLoop est rd initialSearch) else 80)
         = Some (bestToken1Amount (allocationSearch est rd), bestToken2Amount (allocationSearch est rd),
                 bestToken1AmountRaw (allocationSearch est rd), bestToken2AmountRaw (allocationSearch est rd))"
proof (cases "found (searchLoop est rd initialSearch)")
  case True
  then have eq: "allocationSearch est rd = searchLoop est rd initialSearch"
    by (simp add: allocationSearch_def Let_def)
  have "found initialSearch \<longrightarrow>
             candidate est rd (minPercentage initialSearch)
               = Some (bestToken1Amount initialSearch, bestToken2Amount initialSearch,
                       bestToken1AmountRaw initialSearch, bestToken2AmountRaw initialSearch)"
    by (simp add: initialSearch_def)
  from searchLoop_best_candidate [OF this] True show ?thesis
    by (simp add: eq)
next
  case False
  show ?thesis
  proof (cases "candidate est rd 80.0")
    case None
    then have "allocationSearch est rd = searchLoop est rd initialSearch"
      using False by (simp add: allocationSearch_def Let_def)
    then show ?thesis
      using False assms by simp
  next
    case (Some q)
    obtain a1 a2 r1 r2 where q: "q = (a1, a2, r1, r2)" by (cases q) auto
    have eq: "allocationSearch est rd =
        (searchLoop est rd initialSearch)\<lparr>bestToken1Amount := a1, bestToken2Amount := a2,
           bestToken1AmountRaw := r1, bestToken2AmountRaw := r2, found := True\<rparr>"
      using False Some q by (simp add: allocationSearch_def Let_def)
    show ?thesis
      using False Some q by (simp add: eq)
  qed
qed


lemma odd_example_eval:
  "getCreatePoolPayload True (\<lambda>x. Some (2 * x + 1000999)) (\<lambda>_. True) oddRatioData
     = Inr \<lparr>currencyAAmount = 749500000, currencyBAmount = 1500000000\<rparr>"
  by code_simp

lemma odd_search_eval:
  "found (searchLoop (\<lambda>x. Some (2 * x + 1000999)) oddRatioData initialSearch) = True"
  "minPercentage (searchLoop (\<lambda>x. Some (2 * x + 1000999)) oddRatioData initialSearch) = 1499 / 20"
  "iteration (searchLoop (\<lambda>x. Some (2 * x + 1000999)) oddRatioData initialSearch) = 9"
  by code_simp+

text \<open>
  C3. The allocation search of \<open>getCreatePoolPayload\<close> bisects a percentage of
  \<open>availableToken1\<close> within \<open>[50, 99.9]\<close>, runs at most 20 iterations and stops before
  that only when the interval is at most 0.1 wide. A candidate at a percentage is the
  raw token1 amount \<open>floor(available * pct / 100 * 10 ** decimals)\<close> rounded down to the
  multiple of 1000 below it, and the oracle's answer for that amount rounded down to the
  multiple of 1000 below it; it is recorded as best only when this rounded requirement,
  in display units, is at most the token2 balance. When the loop found nothing the 80
  percent candidate decides. So the allocation returned, if any, is the candidate of a
  percentage in \<open>[50, 99.9]\<close> and its token2 amount, the rounded requirement, never
  exceeds the token2 balance (the oracle's own answer is less than 1000 raw units above
  the amount returned).
\<close>

theorem allocation_search_within_balance:
  "iteration (searchLoop est rd initialSearch) \<le> 20
   \<and> 50 \<le> minPercentage (searchLoop est rd initialSearch)
   \<and> minPercentage (searchLoop est rd initialSearch) \<le> maxPercentage (searchLoop est rd initialSearch)
   \<and> maxPercentage (searchLoop est rd initialSearch) \<le> 99.9
   \<and> (iteration (searchLoop est rd initialSearch) = 20 \<or> maxPercentage (searchLoop est rd initialSearch) - minPercentage (searchLoop est rd initialSearch) \<le> 0.1)
   \<and> (\<forall>pct a1 a2 r1 r2. candidate est rd pct = Some (a1, a2, r1, r2) \<longrightarrow>
          a1 = rd_availableToken1 rd * (pct / 100)
          \<and> r1 = \<lfloor>real_of_int \<lfloor>a1 * 10 ^ rd_token1Decimals rd\<rfloor> / 1000\<rfloor> * 1000
          \<and> r1 \<le> \<lfloor>a1 * 10 ^ rd_token1Decimals rd\<rfloor>
          \<and> \<lfloor>a1 * 10 ^ rd_token1Decimals rd\<rfloor> < r1 + 1000
          \<and> (\<exists>q. est r1 = Some q \<and> r2 = \<lfloor>real_of_int q / 1000\<rfloor> * 1000
                   \<and> r2 \<le> q \<and> q < r2 + 1000)
          \<and> a2 = real_of_int r2 / 10 ^ rd_token2Decimals rd
          \<and> a2 \<le> rd_token2Balance rd
          \<and> 1000 dvd r1 \<and> 1000 dvd r2)
   \<and> (found (searchLoop est rd initialSearch) \<longrightarrow> allocationSearch est rd = searchLoop est rd initialSearch)
   \<and> (\<not> found (searchLoop est rd initialSearch) \<longrightarrow> found (allocationSearch est rd) = (candidate est rd 80 \<noteq> None))
   \<and> (found (allocationSearch est rd) \<longrightarrow>
          50 \<le> (if found (searchLoop est rd initialSearch) then minPercentage (searchLoop est rd initialSearch) else 80) \<and> (if found (searchLoop est rd initialSearch) then minPercentage (searchLoop est rd initialSearch) else 80) \<le> 99.9
          \<and> candidate est rd (if found (searchLoop est rd initialSearch) then minPercentage (searchLoop est rd initialSearch) else 80)
              = Some (bestToken1Amount (allocationSearch est rd), bestToken2Amount (allocationSearch est rd),
                      bestToken1AmountRaw (allocationSearch est rd), bestToken2AmountRaw (allocationSearch est rd)))
   \<and> (found (allocationSearch est rd) \<longrightarrow>
          1000 dvd bestToken1AmountRaw (allocationSearch est rd) \<and> 1000 dvd bestToken2AmountRaw (allocationSearch est rd)
          \<and> bestToken2Amount (allocationSearch est rd) = real_of_int (bestToken2AmountRaw (allocationSearch est rd)) / 10 ^ rd_token2Decimals rd
          \<and> bestToken2Amount (allocationSearch est rd) \<le> rd_token2Balance rd)
   \<and> (\<forall>p. getCreatePoolPayload hasApiKey est sdkPayload rd = Inr p \<longrightarrow>
          50 \<le> (if found (searchLoop est rd initialSearch) then minPercentage (searchLoop est rd initialSearch) else 80) \<and> (if found (searchLoop est rd initialSearch) then minPercentage (searchLoop est rd initialSearch) else 80) \<le> 99.9
          \<and> currencyAAmount p
              = \<lfloor>real_of_int \<lfloor>rd_availableToken1 rd * ((if found (searchLoop est rd initialSearch) then minPercentage (searchLoop est rd initialSearch) else 80) / 100) * 10 ^ rd_token1Decimals rd\<rfloor> / 1000\<rfloor> * 1000
          \<and> (\<exists>q. est (currencyAAmount p) = Some q
                   \<and> currencyBAmount p = \<lfloor>real_of_int q / 1000\<rfloor> * 1000
                   \<and> currencyBAmount p \<le> q \<and> q < currencyBAmount p + 1000)
          \<and> 1000 dvd currencyAAmount p \<and> 1000 dvd currencyBAmount p
          \<and> real_of_int (currencyBAmount p) / 10 ^ rd_token2Decimals rd \<le> rd_token2Balance rd)"
proof -
  have init: "iteration initialSearch \<le> maxIterations" "50 \<le> minPercentage initialSearch"
    "minPercentage initialSearch \<le> maxPercentage initialSearch"
    "maxPercentage initialSearch \<le> 99.9"
    by (simp_all add: initialSearch_def)
  note B = searchLoop_bounds [OF init, of est rd, unfolded maxIterations_def tolerance_def]
  have b1: "iteration (searchLoop est rd initialSearch) \<le> 20" using B by (elim conjE)
  have b2: "50 \<le> minPercentage (searchLoop est rd initialSearch)" using B by (elim conjE)
  have b3: "minPercentage (searchLoop est rd initialSearch) \<le> maxPercentage (searchLoop est rd initialSearch)" using B by (elim conjE)
  have b4: "maxPercentage (searchLoop est rd initialSearch) \<le> 99.9" using B by (elim conjE)
  have b5: "iteration (searchLoop est rd initialSearch) = 20 \<or> maxPercentage (searchLoop est rd initialSearch) - minPercentage (searchLoop est rd initialSearch) \<le> 0.1"
    using B by (elim conjE) simp
  have pct: "50 \<le> (if found (searchLoop est rd initialSearch) then minPercentage (searchLoop est rd initialSearch) else 80)" "(if found (searchLoop est rd initialSearch) then minPercentage (searchLoop est rd initialSearch) else 80) \<le> 99.9"
    using b2 b3 b4 by auto
  have c: "\<forall>pct a1 a2 r1 r2. candidate est rd pct = Some (a1, a2, r1, r2) \<longrightarrow>
          a1 = rd_availableToken1 rd * (pct / 100)
          \<and> r1 = \<lfloor>real_of_int \<lfloor>a1 * 10 ^ rd_token1Decimals rd\<rfloor> / 1000\<rfloor> * 1000
          \<and> r1 \<le> \<lfloor>a1 * 10 ^ rd_token1Decimals rd\<rfloor>
          \<and> \<lfloor>a1 * 10 ^ rd_token1Decimals rd\<rfloor> < r1 + 1000
          \<and> (\<exists>q. est r1 = Some q \<and> r2 = \<lfloor>real_of_int q / 1000\<rfloor> * 1000
                   \<and> r2 \<le> q \<and> q < r2 + 1000)
          \<and> a2 = real_of_int r2 / 10 ^ rd_token2Decimals rd
          \<and> a2 \<le> rd_token2Balance rd
          \<and> 1000 dvd r1 \<and> 1000 dvd r2"
  proof (intro allI impI)
    fix pct a1 a2 r1 r2
    assume q: "candidate est rd pct = Some (a1, a2, r1, r2)"
    show "a1 = rd_availableToken1 rd * (pct / 100)
          \<and> r1 = \<lfloor>real_of_int \<lfloor>a1 * 10 ^ rd_token1Decimals rd\<rfloor> / 1000\<rfloor> * 1000
          \<and> r1 \<le> \<lfloor>a1 * 10 ^ rd_token1Decimals rd\<rfloor>
          \<and> \<lfloor>a1 * 10 ^ rd_token1Decimals rd\<rfloor> < r1 + 1000
          \<and> (\<exists>q. est r1 = Some q \<and> r2 = \<lfloor>real_of_int q / 1000\<rfloor> * 1000
                   \<and> r2 \<le> q \<and> q < r2 + 1000)
          \<and> a2 = real_of_int r2 / 10 ^ rd_token2Decimals rd
          \<and> a2 \<le> rd_token2Balance rd
          \<and> 1000 dvd r1 \<and> 1000 dvd r2"
      using candidate_floors [OF q] candidate_feasible(3,4) [OF q] by (elim conjE) (intro conjI)
  qed
  have f1: "found (searchLoop est rd initialSearch) \<longrightarrow> allocationSearch est rd = searchLoop est rd initialSearch"
    by (simp add: allocationSearch_def Let_def)
  have f2: "\<not> found (searchLoop est rd initialSearch) \<longrightarrow> found (allocationSearch est rd) = (candidate est rd 80 \<noteq> None)"
    by (auto simp add: allocationSearch_def Let_def split: option.splits)
  have g1: "found (allocationSearch est rd) \<longrightarrow>
          50 \<le> (if found (searchLoop est rd initialSearch) then minPercentage (searchLoop est rd initialSearch) else 80) \<and> (if found (searchLoop est rd initialSearch) then minPercentage (searchLoop est rd initialSearch) else 80) \<le> 99.9
          \<and> candidate est rd (if found (searchLoop est rd initialSearch) then minPercentage (searchLoop est rd initialSearch) else 80)
              = Some (bestToken1Amount (allocationSearch est rd), bestToken2Amount (allocationSearch est rd),
                      bestToken1AmountRaw (allocationSearch est rd), bestToken2AmountRaw (allocationSearch est rd))"
    using pct allocationSearch_candidate [of est rd] by (intro impI conjI)
  have g: "found (allocationSearch est rd) \<longrightarrow>
          1000 dvd bestToken1AmountRaw (allocationSearch est rd) \<and> 1000 dvd bestToken2AmountRaw (allocationSearch est rd)
          \<and> bestToken2Amount (allocationSearch est rd) = real_of_int (bestToken2AmountRaw (allocationSearch est rd)) / 10 ^ rd_token2Decimals rd
          \<and> bestToken2Amount (allocationSearch est rd) \<le> rd_token2Balance rd"
    by (rule allocationSearch_best)
  have h: "\<forall>p. getCreatePoolPayload hasApiKey est sdkPayload rd = Inr p \<longrightarrow>
          50 \<le> (if found (searchLoop est rd initialSearch) then minPercentage (searchLoop est rd initialSearch) else 80) \<and> (if found (searchLoop est rd initialSearch) then minPercentage (searchLoop est rd initialSearch) else 80) \<le> 99.9
          \<and> currencyAAmount p
              = \<lfloor>real_of_int \<lfloor>rd_availableToken1 rd * ((if found (searchLoop est rd initialSearch) then minPercentage (searchLoop est rd initialSearch) else 80) / 100) * 10 ^ rd_token1Decimals rd\<rfloor> / 1000\<rfloor> * 1000
          \<and> (\<exists>q. est (currencyAAmount p) = Some q
                   \<and> currencyBAmount p = \<lfloor>real_of_int q / 1000\<rfloor> * 1000
                   \<and> currencyBAmount p \<le> q \<and> q < currencyBAmount p + 1000)
          \<and> 1000 dvd currencyAAmount p \<and> 1000 dvd currencyBAmount p
          \<and> real_of_int (currencyBAmount p) / 10 ^ rd_token2Decimals rd \<le> rd_token2Balance rd"
  proof (intro allI impI)
    fix p
    assume r: "getCreatePoolPayload hasApiKey est sdkPayload rd = Inr p"
    note R = getCreatePoolPayload_Inr [OF r]
    have cand: "candidate est rd (if found (searchLoop est rd initialSearch) then minPercentage (searchLoop est rd initialSearch) else 80)
              = Some (bestToken1Amount (allocationSearch est rd), bestToken2Amount (allocationSearch est rd), currencyAAmount p, currencyBAmount p)"
      using allocationSearch_candidate [OF R(1)] by (simp only: R(2) R(3))
    note F = candidate_floors [OF cand]
    note D = candidate_feasible(3,4) [OF cand]
    have a: "currencyAAmount p
              = \<lfloor>real_of_int \<lfloor>rd_availableToken1 rd * ((if found (searchLoop est rd initialSearch) then minPercentage (searchLoop est rd initialSearch) else 80) / 100) * 10 ^ rd_token1Decimals rd\<rfloor> / 1000\<rfloor> * 1000"
      using F by (elim conjE) (simp only:)
    have e: "\<exists>q. est (currencyAAmount p) = Some q
                   \<and> currencyBAmount p = \<lfloor>real_of_int q / 1000\<rfloor> * 1000
                   \<and> currencyBAmount p \<le> q \<and> q < currencyBAmount p + 1000"
      using F by (elim conjE)
    have le: "real_of_int (currencyBAmount p) / 10 ^ rd_token2Decimals rd \<le> rd_token2Balance rd"
      using F by (elim conjE) (simp only:)
    show "50 \<le> (if found (searchLoop est rd initialSearch) then minPercentage (searchLoop est rd initialSearch) else 80) \<and> (if found (searchLoop est rd initialSearch) then minPercentage (searchLoop est rd initialSearch) else 80) \<le> 99.9
          \<and> currencyAAmount p
              = \<lfloor>real_of_int \<lfloor>rd_availableToken1 rd * ((if found (searchLoop est rd initialSearch) then minPercentage (searchLoop est rd initialSearch) else 80) / 100) * 10 ^ rd_token1Decimals rd\<rfloor> / 1000\<rfloor> * 1000
          \<and> (\<exists>q. est (currencyAAmount p) = Some q
                   \<and> currencyBAmount p = \<lfloor>real_of_int q / 1000\<rfloor> * 1000
                   \<and> currencyBAmount p \<le> q \<and> q < currencyBAmount p + 1000)
          \<and> 1000 dvd currencyAAmount p \<and> 1000 dvd currencyBAmount p
          \<and> real_of_int (currencyBAmount p) / 10 ^ rd_token2Decimals rd \<le> rd_token2Balance rd"
      using pct a e D le by (intro conjI)
  qed
  show ?thesis
    by (intro conjI) (rule b1 b2 b3 b4 b5 c f1 f2 g1 g h)+
qed

theorem allocation_search_within_balance_witness:
  "getCreatePoolPayload True (\<lambda>x. Some (2 * x + 1000999)) (\<lambda>_. True) oddRatioData
     = Inr \<lparr>currencyAAmount = 749500000, currencyBAmount = 1500000000\<rparr>
   \<and> iteration (searchLoop (\<lambda>x. Some (2 * x + 1000999)) oddRatioData initialSearch) = 9
   \<and> \<lfloor>rd_availableToken1 oddRatioData * (1499 / 20 / 100) * 10 ^ rd_token1Decimals oddRatioData\<rfloor>
       = 749500240
   \<and> (749500000::int)
       = \<lfloor>real_of_int \<lfloor>rd_availableToken1 oddRatioData * (1499 / 20 / 100)
                            * 10 ^ rd_token1Decimals oddRatioData\<rfloor> / 1000\<rfloor> * 1000
   \<and> (\<exists>q. (\<lambda>x. Some (2 * x + 1000999)) (749500000::int) = Some q
          \<and> (1500000000::int) = \<lfloor>real_of_int q / 1000\<rfloor> * 1000
          \<and> 1500000000 \<le> q \<and> q < 1500000000 + 1000)
   \<and> (\<lambda>x. Some (2 * x + 1000999)) (749500000::int) = Some 1500000999
   \<and> real_of_int 1500000000 / 10 ^ rd_token2Decimals oddRatioData
       \<le> rd_token2Balance oddRatioData
   \<and> rd_token2Balance oddRatioData < real_of_int 1500000999 / 10 ^ rd_token2Decimals oddRatioData"
proof -
  let ?est = "\<lambda>x::int. Some (2 * x + 1000999)"
  let ?p = "\<lparr>currencyAAmount = 749500000, currencyBAmount = 1500000000\<rparr>"
  note T = allocation_search_within_balance [of ?est oddRatioData True "\<lambda>_. True"]
  from T have A: "\<forall>p. getCreatePoolPayload True ?est (\<lambda>_. True) oddRatioData = Inr p \<longrightarrow>
          50 \<le> (if found (searchLoop ?est oddRatioData initialSearch)
                  then minPercentage (searchLoop ?est oddRatioData initialSearch) else 80)
          \<and> (if found (searchLoop ?est oddRatioData initialSearch)
               then minPercentage (searchLoop ?est oddRatioData initialSearch) else 80) \<le> 99.9
          \<and> currencyAAmount p
              = \<lfloor>real_of_int \<lfloor>rd_availableToken1 oddRatioData
                   * ((if found (searchLoop ?est oddRatioData initialSearch)
                       then minPercentage (searchLoop ?est oddRatioData initialSearch) else 80) / 100)
                   * 10 ^ rd_token1Decimals oddRatioData\<rfloor> / 1000\<rfloor> * 1000
          \<and> (\<exists>q. ?est (currencyAAmount p) = Some q
                   \<and> currencyBAmount p = \<lfloor>real_of_int q / 1000\<rfloor> * 1000
                   \<and> currencyBAmount p \<le> q \<and> q < currencyBAmount p + 1000)
          \<and> 1000 dvd currencyAAmount p \<and> 1000 dvd currencyBAmount p
          \<and> real_of_int (currencyBAmount p) / 10 ^ rd_token2Decimals oddRatioData
              \<le> rd_token2Balance oddRatioData"
    by (elim conjE)
  note I = A [rule_format, OF odd_example_eval, unfolded odd_search_eval if_True]
  have a: "(749500000::int)
       = \<lfloor>real_of_int \<lfloor>rd_availableToken1 oddRatioData * (1499 / 20 / 100)
                            * 10 ^ rd_token1Decimals oddRatioData\<rfloor> / 1000\<rfloor> * 1000"
    using I by (elim conjE) simp
  have e: "\<exists>q. ?est (749500000::int) = Some q
          \<and> (1500000000::int) = \<lfloor>real_of_int q / 1000\<rfloor> * 1000
          \<and> 1500000000 \<le> q \<and> q < 1500000000 + 1000"
    using I by (elim conjE) simp
  have le: "real_of_int 1500000000 / 10 ^ rd_token2Decimals oddRatioData
       \<le> rd_token2Balance oddRatioData"
    using I by (elim conjE) simp
  have raw: "\<lfloor>rd_availableToken1 oddRatioData * (1499 / 20 / 100) * 10 ^ rd_token1Decimals oddRatioData\<rfloor>
       = 749500240"
    by (simp add: oddRatioData_def exampleRatioData_def)
  have q: "?est (749500000::int) = Some 1500000999"
    by simp
  have gt: "rd_token2Balance oddRatioData < real_of_int 1500000999 / 10 ^ rd_token2Decimals oddRatioData"
    by (simp add: oddRatioData_def exampleRatioData_def)
  show ?thesis
    using odd_example_eval odd_search_eval(3) raw a e q le gt by (intro conjI)
qed

text \<open>
  C8, as stated, fails on the create path: \<open>getCreatePoolPayload\<close> has no minimum for the
  raw amounts of the allocation. For an oracle that asks for 500 raw units of token2 the
  rounded token2 amount is 0, below the minimum of 100000 raw units that the top-up path
  enforces, and the parameters are accepted.
\<close>

theorem create_path_accepts_dust_amount:
  "getCreatePoolPayload True (\<lambda>x. Some 500) (\<lambda>_. True) exampleRatioData
     = Inr \<lparr>currencyAAmount = 998025000, currencyBAmount = 0\<rparr>
   \<and> currencyBAmount \<lparr>currencyAAmount = 998025000, currencyBAmount = 0\<rparr> < finalMinToken2Raw"
proof -
  have "getCreatePoolPayload True (\<lambda>x. Some 500) (\<lambda>_. True) exampleRatioData
     = Inr \<lparr>currencyAAmount = 998025000, currencyBAmount = 0\<rparr>"
    by code_simp
  then show ?thesis
    by (simp add: finalMinToken2Raw_def)
qed

text \<open>
  C8, amended. After the allocation search and before the create-position payload is
  generated, \<open>getCreatePoolPayload\<close> accepts the raw amounts only if they do not exceed the
  raw balances \<open>floor(balance * 10 ** decimals)\<close>; its only minimum is on the balances
  (each at least 0.001), checked before the search. The rejection of raw amounts below a
  minimum (100000 raw units for either token) belongs to the top-up path
  \<open>executeAddLiquidity\<close>, whose allocation is accepted only with both raw amounts at or
  above that minimum.
\<close>

theorem raw_amount_validation:
  "(\<forall>p. getCreatePoolPayload hasApiKey est sdkPayload rd = Inr p \<longrightarrow>
        currencyAAmount p \<le> \<lfloor>rd_availableToken1 rd * 10 ^ rd_token1Decimals rd\<rfloor>
        \<and> currencyBAmount p \<le> \<lfloor>rd_token2Balance rd * 10 ^ rd_token2Decimals rd\<rfloor>
        \<and> 0.001 \<le> rd_availableToken1 rd \<and> 0.001 \<le> rd_token2Balance rd)
   \<and> (\<forall>s. addLiquidityAllocation estFor positionDetails rd' liquidityPercentage = Inr s \<longrightarrow>
        100000 \<le> bestToken1AmountRaw s \<and> 100000 \<le> bestToken2AmountRaw s)"
proof (intro conjI allI impI)
  fix p
  assume r: "getCreatePoolPayload hasApiKey est sdkPayload rd = Inr p"
  show "currencyAAmount p \<le> \<lfloor>rd_availableToken1 rd * 10 ^ rd_token1Decimals rd\<rfloor>"
    by (rule getCreatePoolPayload_Inr(4) [OF r])
  show "currencyBAmount p \<le> \<lfloor>rd_token2Balance rd * 10 ^ rd_token2Decimals rd\<rfloor>"
    by (rule getCreatePoolPayload_Inr(5) [OF r])
  show "0.001 \<le> rd_availableToken1 rd"
    by (rule getCreatePoolPayload_Inr(6) [OF r])
  show "0.001 \<le> rd_token2Balance rd"
    by (rule getCreatePoolPayload_Inr(7) [OF r])
next
  fix s
  assume r: "addLiquidityAllocation estFor positionDetails rd' liquidityPercentage = Inr s"
  show "100000 \<le> bestToken1AmountRaw s"
    using addLiquidityAllocation_Inr(1) [OF r] by (simp add: finalMinToken1Raw_def)
  show "100000 \<le> bestToken2AmountRaw s"
    using addLiquidityAllocation_Inr(2) [OF r] by (simp add: finalMinToken2Raw_def)
qed

theorem raw_amount_validation_witness:
  "getCreatePoolPayload True (\<lambda>x. Some (2 * x)) (\<lambda>_. True) exampleRatioData
     = Inr \<lparr>currencyAAmount = 749500000, currencyBAmount = 1499000000\<rparr>
   \<and> (749500000::int) \<le> \<lfloor>rd_availableToken1 exampleRatioData * 10 ^ rd_token1Decimals exampleRatioData\<rfloor>
   \<and> (1499000000::int) \<le> \<lfloor>rd_token2Balance exampleRatioData * 10 ^ rd_token2Decimals exampleRatioData\<rfloor>
   \<and> 0.001 \<le> rd_availableToken1 exampleRatioData \<and> 0.001 \<le> rd_token2Balance exampleRatioData
   \<and> (100000::int) \<le> 744721875 \<and> (100000::int) \<le> 1489443750"
proof -
  let ?p = "\<lparr>currencyAAmount = 749500000, currencyBAmount = 1499000000\<rparr>"
  let ?s = "\<lparr>bestToken1Amount = 238311 / 32000, bestToken2Amount = 238311 / 160,
            bestToken1AmountRaw = 744721875, bestToken2AmountRaw = 1489443750,
            found = True, minPercentage = 26479 / 320, maxPercentage = 53457 / 640,
            iteration = 6\<rparr>"
  note T = raw_amount_validation
    [of True "\<lambda>x. Some (2 * x)" "\<lambda>_. True" exampleRatioData
        "\<lambda>query x. Some (2 * x)" "Some (420, 600, Some 2)" exampleRatioData "0.9"]
  from T have A: "\<forall>p. getCreatePoolPayload True (\<lambda>x. Some (2 * x)) (\<lambda>_. True) exampleRatioData = Inr p \<longrightarrow>
        currencyAAmount p \<le> \<lfloor>rd_availableToken1 exampleRatioData * 10 ^ rd_token1Decimals exampleRatioData\<rfloor>
        \<and> currencyBAmount p \<le> \<lfloor>rd_token2Balance exampleRatioData * 10 ^ rd_token2Decimals exampleRatioData\<rfloor>
        \<and> 0.001 \<le> rd_availableToken1 exampleRatioData \<and> 0.001 \<le> rd_token2Balance exampleRatioData"
    by (elim conjE)
  from T have B: "\<forall>s. addLiquidityAllocation (\<lambda>query x. Some (2 * x)) (Some (420, 600, Some 2))
                       exampleRatioData 0.9 = Inr s \<longrightarrow>
        100000 \<le> bestToken1AmountRaw s \<and> 100000 \<le> bestToken2AmountRaw s"
    by (elim conjE)
  have a: "currencyAAmount ?p \<le> \<lfloor>rd_availableToken1 exampleRatioData * 10 ^ rd_token1Decimals exampleRatioData\<rfloor>
        \<and> currencyBAmount ?p \<le> \<lfloor>rd_token2Balance exampleRatioData * 10 ^ rd_token2Decimals exampleRatioData\<rfloor>
        \<and> 0.001 \<le> rd_availableToken1 exampleRatioData \<and> 0.001 \<le> rd_token2Balance exampleRatioData"
    by (rule A [rule_format, OF create_example_eval])
  have b: "100000 \<le> bestToken1AmountRaw ?s \<and> 100000 \<le> bestToken2AmountRaw ?s"
    by (rule B [rule_format, OF add_example_eval])
  show ?thesis
    using a b create_example_eval by simp
qed

section \<open>Properties of the transaction executor\<close>

lemma executeTransaction_records:
  assumes "submitted response"
  shows "tx_recent (executeTransaction recent now sender pl response) (txSignatureOf sender pl) = Some now"
  using assms by (cases response) (simp_all add: executeTransaction_def Let_def)

lemma executeTransaction_buildTime:
  "tx_buildTime (executeTransaction recent now sender pl response) =
     now + (case cleanupOldTransactions recent now (txSignatureOf sender pl) of
              None \<Rightarrow> 0
            | Some lastTime \<Rightarrow> (if lastTime \<noteq> 0 \<and> now - lastTime < TRANSACTION_COOLDOWN
                           then TRANSACTION_COOLDOWN - (now - lastTime) else 0))"
  by (cases response) (simp_all add: executeTransaction_def Let_def)

lemma unsubmitted_call_not_recorded:
  assumes "\<not> submitted firstResponse" and "recent (txSignatureOf sender firstPayload) = None"
  shows "tx_buildTime (executeTransaction
            (tx_recent (executeTransaction recent t1 sender firstPayload firstResponse)) t2 sender firstPayload secondResponse)
         = t2"
proof -
  have "tx_recent (executeTransaction recent t1 sender firstPayload firstResponse) (txSignatureOf sender firstPayload) = None"
    using assms by (cases firstResponse) (simp_all add: executeTransaction_def Let_def cleanupOldTransactions_def)
  then show ?thesis
    by (simp add: executeTransaction_buildTime cleanupOldTransactions_def)
qed

text \<open>
  A second call within the cooldown of a recorded first call waits until 30 seconds after
  the recorded time \<open>t1\<close>, which is the clock reading at the start of the first call; a
  first call that was not itself delayed builds at \<open>t1\<close>.
\<close>

lemma second_call_waits_from_recorded_time:
  assumes "submitted firstResponse"
      and "pl_function secondPayload = pl_function firstPayload" and "pl_argsJson secondPayload = pl_argsJson firstPayload"
      and "t1 \<noteq> 0" and "t1 \<le> t2" and "t2 < t1 + 30000"
  shows "tx_buildTime (executeTransaction
            (tx_recent (executeTransaction recent t1 sender firstPayload firstResponse)) t2 sender secondPayload secondResponse)
         = t1 + 30000
       \<and> t2 < tx_buildTime (executeTransaction
            (tx_recent (executeTransaction recent t1 sender firstPayload firstResponse)) t2 sender secondPayload secondResponse)
       \<and> (recent (txSignatureOf sender firstPayload) = None \<longrightarrow>
            tx_buildTime (executeTransaction recent t1 sender firstPayload firstResponse) = t1)"
proof -
  let ?r1 = "tx_recent (executeTransaction recent t1 sender firstPayload firstResponse)"
  have sig: "txSignatureOf sender secondPayload = txSignatureOf sender firstPayload"
    using assms(2,3) by (simp add: txSignatureOf_def)
  have rec: "?r1 (txSignatureOf sender firstPayload) = Some t1"
    using assms(1) by (rule executeTransaction_records)
  have cl: "cleanupOldTransactions ?r1 t2 (txSignatureOf sender secondPayload) = Some t1"
    using assms(5,6) by (simp add: cleanupOldTransactions_def sig rec TRANSACTION_COOLDOWN_def)
  have b2: "tx_buildTime (executeTransaction ?r1 t2 sender secondPayload secondResponse) = t1 + 30000"
    using assms(4,5,6) by (simp add: executeTransaction_buildTime cl TRANSACTION_COOLDOWN_def)
  have b1: "recent (txSignatureOf sender firstPayload) = None \<longrightarrow>
            tx_buildTime (executeTransaction recent t1 sender firstPayload firstResponse) = t1"
    by (simp add: executeTransaction_buildTime cleanupOldTransactions_def)
  show ?thesis
    using b1 assms(6) by (simp only: b2)
qed

text \<open>
  C6. If a transaction with the same (sender, function, arguments) signature is
  submitted twice within the 30 second cooldown, the second submission should be delayed
  until the cooldown has elapsed, so that only one new transaction is built within the
  window. Evaluated on the code, for three successive calls with one signature at the
  times 1000, 6000 and 31500: the second call waits and its transaction is built at
  31000, but it is recorded with its call time 6000, the clock reading taken before the
  wait; the third call therefore waits only until 36000, and the second and the third
  transaction are built 5 seconds apart, within the cooldown.
\<close>

theorem stale_timestamp_shortens_cooldown:
  "tx_buildTime (executeTransaction (\<lambda>_. None) 1000 ''0x1''
      \<lparr>pl_function = ''0x1::m::f'', pl_argsJson = ''[1]''\<rparr> (Confirmed ''0xaa'')) = 1000
   \<and> tx_buildTime (executeTransaction
        (tx_recent (executeTransaction (\<lambda>_. None) 1000 ''0x1''
           \<lparr>pl_function = ''0x1::m::f'', pl_argsJson = ''[1]''\<rparr> (Confirmed ''0xaa'')))
        6000 ''0x1'' \<lparr>pl_function = ''0x1::m::f'', pl_argsJson = ''[1]''\<rparr> (Confirmed ''0xbb''))
      = 31000
   \<and> tx_recent (executeTransaction
        (tx_recent (executeTransaction (\<lambda>_. None) 1000 ''0x1''
           \<lparr>pl_function = ''0x1::m::f'', pl_argsJson = ''[1]''\<rparr> (Confirmed ''0xaa'')))
        6000 ''0x1'' \<lparr>pl_function = ''0x1::m::f'', pl_argsJson = ''[1]''\<rparr> (Confirmed ''0xbb''))
        (txSignatureOf ''0x1'' \<lparr>pl_function = ''0x1::m::f'', pl_argsJson = ''[1]''\<rparr>)
      = Some 6000
   \<and> tx_buildTime (executeTransaction
        (tx_recent (executeTransaction
           (tx_recent (executeTransaction (\<lambda>_. None) 1000 ''0x1''
              \<lparr>pl_function = ''0x1::m::f'', pl_argsJson = ''[1]''\<rparr> (Confirmed ''0xaa'')))
           6000 ''0x1'' \<lparr>pl_function = ''0x1::m::f'', pl_argsJson = ''[1]''\<rparr> (Confirmed ''0xbb'')))
        31500 ''0x1'' \<lparr>pl_function = ''0x1::m::f'', pl_argsJson = ''[1]''\<rparr> (Confirmed ''0xcc''))
      = 36000
   \<and> (36000::int) - 31000 < TRANSACTION_COOLDOWN"
proof -
  let ?pl = "\<lparr>pl_function = ''0x1::m::f'', pl_argsJson = ''[1]''\<rparr>"
  let ?sig = "txSignatureOf ''0x1'' ?pl"
  let ?r1 = "tx_recent (executeTransaction (\<lambda>_. None) 1000 ''0x1'' ?pl (Confirmed ''0xaa''))"
  let ?r2 = "tx_recent (executeTransaction ?r1 6000 ''0x1'' ?pl (Confirmed ''0xbb''))"
  have b1: "tx_buildTime (executeTransaction (\<lambda>_. None) 1000 ''0x1'' ?pl (Confirmed ''0xaa'')) = 1000"
    by (simp add: executeTransaction_buildTime cleanupOldTransactions_def)
  have rec1: "?r1 ?sig = Some 1000"
    by (rule executeTransaction_records) simp
  have cl1: "cleanupOldTransactions ?r1 6000 ?sig = Some 1000"
    by (simp add: cleanupOldTransactions_def rec1 TRANSACTION_COOLDOWN_def)
  have b2: "tx_buildTime (executeTransaction ?r1 6000 ''0x1'' ?pl (Confirmed ''0xbb'')) = 31000"
    by (simp add: executeTransaction_buildTime cl1 TRANSACTION_COOLDOWN_def)
  have rec2: "?r2 ?sig = Some 6000"
    by (rule executeTransaction_records) simp
  have cl2: "cleanupOldTransactions ?r2 31500 ?sig = Some 6000"
    by (simp add: cleanupOldTransactions_def rec2 TRANSACTION_COOLDOWN_def)
  have b3: "tx_buildTime (executeTransaction ?r2 31500 ''0x1'' ?pl (Confirmed ''0xcc'')) = 36000"
    by (simp add: executeTransaction_buildTime cl2 TRANSACTION_COOLDOWN_def)
  have w: "(36000::int) - 31000 < TRANSACTION_COOLDOWN"
    by (simp add: TRANSACTION_COOLDOWN_def)
  show ?thesis
    using b1 b2 rec2 b3 w by (intro conjI)
qed

section \<open>Properties of the orchestrator\<close>

text \<open>
  C2. When the remove-liquidity step of a run succeeds and the swap step then fails,
  \<open>executeRebalancing\<close> returns a result with \<open>success = false\<close>, a list of transaction
  hashes that holds exactly the hash of the remove transaction, and the error text; the
  progress made before the failure stays in the result.
\<close>

theorem partial_failure_keeps_remove_hash:
  assumes "ip_objectId inactivePosition \<noteq> ''CREATE_NEW''"
      and "w_getAccount w = Inr address"
      and "w_getRemoveLiquidityPayload w address (ip_objectId inactivePosition) = Inr removePayload"
      and "w_executeTransaction w ''remove liquidity'' removePayload = Inr removeHash"
      and "w_ratio w = Some ratioResult"
      and "swapRecommendation ratioResult = Some (amount, amountRaw, fromToken, toToken)"
      and "swapTransaction w address fromToken toToken amountRaw = Inl e"
  shows "rr_success (executeRebalancing w inactivePosition poolConfig) = False
       \<and> rr_transactionHashes (executeRebalancing w inactivePosition poolConfig) = [removeHash]
       \<and> length (rr_transactionHashes (executeRebalancing w inactivePosition poolConfig)) = 1
       \<and> rr_error (executeRebalancing w inactivePosition poolConfig) = Some (errorString e)
       \<and> rr_positionRemoved (executeRebalancing w inactivePosition poolConfig) = True
       \<and> rr_swapExecuted (executeRebalancing w inactivePosition poolConfig) = False
       \<and> rr_newPositionCreated (executeRebalancing w inactivePosition poolConfig) = False"
proof -
  let ?r1 = "initialResult\<lparr>rr_positionRemoved := True,
               rr_transactionHashes := rr_transactionHashes initialResult @ [removeHash]\<rparr>"
  have rem: "removeStep w inactivePosition address initialResult = (?r1, None)"
    using assms(1,3,4) by (simp add: removeStep_def)
  have sw: "swapStep w address ?r1 = (?r1, Some (errorString e))"
    using assms(5,6,7) by (simp add: swapStep_def)
  have body: "tryBlock w inactivePosition poolConfig = (?r1, Some (errorString e))"
    using assms(2) by (simp add: tryBlock_def rem sw)
  show ?thesis
    by (simp add: executeRebalancing_def body initialResult_def)
qed

theorem partial_failure_keeps_remove_hash_witness:
  "ip_objectId (exampleInactive ''0xpos1'') \<noteq> ''CREATE_NEW''
   \<and> swapTransaction (exampleWorld swapRatioData swapFailingExecutor) ''0xacc'' ''0xa'' ''0xusdt'' 200000000
       = Inl ''Transaction simulation failed: Unknown simulation error''
   \<and> rr_success (executeRebalancing (exampleWorld swapRatioData swapFailingExecutor)
         (exampleInactive ''0xpos1'') examplePoolConfig) = False
   \<and> rr_transactionHashes (executeRebalancing (exampleWorld swapRatioData swapFailingExecutor)
         (exampleInactive ''0xpos1'') examplePoolConfig) = [''0xremove_liquidity_0xpos1'']
   \<and> rr_error (executeRebalancing (exampleWorld swapRatioData swapFailingExecutor)
         (exampleInactive ''0xpos1'') examplePoolConfig)
       = Some ''Error: Transaction simulation failed: Unknown simulation error''"
proof -
  let ?w = "exampleWorld swapRatioData swapFailingExecutor"
  let ?ip = "exampleInactive ''0xpos1''"
  have h1: "ip_objectId ?ip \<noteq> ''CREATE_NEW''"
    by (simp add: exampleInactive_def)
  have h2: "w_getAccount ?w = Inr ''0xacc''"
    by (simp add: exampleWorld_def)
  have h3: "w_getRemoveLiquidityPayload ?w ''0xacc'' (ip_objectId ?ip)
              = Inr \<lparr>pl_function = ''remove_liquidity'', pl_argsJson = ''0xpos1''\<rparr>"
    by (simp add: exampleWorld_def exampleInactive_def)
  have h4: "w_executeTransaction ?w ''remove liquidity''
              \<lparr>pl_function = ''remove_liquidity'', pl_argsJson = ''0xpos1''\<rparr>
              = Inr ''0xremove_liquidity_0xpos1''"
    by (simp add: exampleWorld_def swapFailingExecutor_def)
  have h5: "w_ratio ?w = Some swapRatioData"
    by (simp add: exampleWorld_def)
  have h6: "swapRecommendation swapRatioData = Some (2, 200000000, ''0xa'', ''0xusdt'')"
    by (simp add: swapRecommendation_def swapRatioData_def exampleRatioData_def)
  have h7: "swapTransaction ?w ''0xacc'' ''0xa'' ''0xusdt'' 200000000
              = Inl ''Transaction simulation failed: Unknown simulation error''"
    by (simp add: swapTransaction_def exampleWorld_def swapFailingExecutor_def)
  note T = partial_failure_keeps_remove_hash [OF h1 h2 h3 h4 h5 h6 h7, of examplePoolConfig]
  have s: "rr_success (executeRebalancing ?w ?ip examplePoolConfig) = False"
    using T by (elim conjE)
  have t: "rr_transactionHashes (executeRebalancing ?w ?ip examplePoolConfig) = [''0xremove_liquidity_0xpos1'']"
    using T by (elim conjE)
  have e: "rr_error (executeRebalancing ?w ?ip examplePoolConfig)
       = Some ''Error: Transaction simulation failed: Unknown simulation error''"
    using T by (elim conjE) (simp add: errorString_def)
  show ?thesis
    using h1 h7 s t e by (intro conjI)
qed

section \<open>Properties of the batch controller\<close>

text \<open>
  The rate limit on position creations holds: when the check reports no position to
  rebalance, a cycle creates at most one position, whatever the number of enabled pools
  without a position.
\<close>

lemma createMissingPosition_newPositions:
  "length (fr_newPositions (createMissingPosition w address missingPool result))
     \<le> length (fr_newPositions result) + 1"
  by (auto simp add: createMissingPosition_def creationFailed_def Let_def
      split: option.splits sum.splits prod.splits)

lemma take_one_cases: "take (Suc 0) xs = [] \<or> (\<exists>x. take (Suc 0) xs = [x])"
  by (cases xs) simp_all

lemma automatic_creation_capped:
  assumes "chk_inactivePositions (fw_checkRebalancingNeeded fw) = []"
  shows "length (fr_newPositions (executeRebalancingFlow fw pools)) \<le> maxPositionCreations"
proof -
  have fin: "fr_newPositions (rebalanceInactivePositions fw pools [] r) = fr_newPositions r" for r
    by (simp add: rebalanceInactivePositions_def finishFlow_def Let_def)
  have one: "length (fr_newPositions
      (fold (\<lambda>missingPool. createMissingPosition (fw_poolWorld fw missingPool) address missingPool)
         (take maxPoolsPerExecution missing) initialFlowResult)) \<le> 1" for address missing
  proof -
    from take_one_cases [of missing] show ?thesis
    proof
      assume "take (Suc 0) missing = []"
      then show ?thesis by (simp add: maxPoolsPerExecution_def initialFlowResult_def)
    next
      assume "\<exists>x. take (Suc 0) missing = [x]"
      then obtain x where x: "take (Suc 0) missing = [x]" ..
      have "length (fr_newPositions (createMissingPosition (fw_poolWorld fw x) address x initialFlowResult))
              \<le> length (fr_newPositions initialFlowResult) + 1"
        by (rule createMissingPosition_newPositions)
      then show ?thesis
        by (simp add: maxPoolsPerExecution_def x initialFlowResult_def)
    qed
  qed
  show ?thesis
    using assms one
    by (auto simp add: executeRebalancingFlow_def Let_def fin flowFailed_def initialFlowResult_def
        maxPositionCreations_def split: sum.splits)
qed

text \<open>
  C9. In an automatic cycle at most one position creation is attempted (see above), and,
  more generally, the number of rebalancing operations attempted per cycle should be
  capped. Evaluated on the code: in the automatic cycle in which the check reports three
  positions of the enabled APT/USDT pool, all three are handed to the orchestrator and
  rebalanced (six transactions), above the limit of two rebalancing operations per run
  that the scheduled handler declares and never applies.
\<close>

theorem automatic_cycle_exceeds_declared_limit:
  "length (chk_inactivePositions (fw_checkRebalancingNeeded threePositionCycle)) = 3
   \<and> fr_successfulRebalances (executeRebalancingFlow threePositionCycle DEFAULT_POOLS_TO_MANAGE) = 3
   \<and> length (fr_transactionHashes (executeRebalancingFlow threePositionCycle DEFAULT_POOLS_TO_MANAGE)) = 6
   \<and> maxRebalancingOperations
       < fr_successfulRebalances (executeRebalancingFlow threePositionCycle DEFAULT_POOLS_TO_MANAGE)"
  by code_simp

end
